theory Spec2Isabelle
  imports Complex_Main
begin

section \<open>Python values, tables and errors\<close>

text \<open>
  The splitting utilities of \<^verbatim>\<open>toolkit/util.py\<close> work on pandas data frames. A data
  frame is modelled as the list of its rows in frame order, a row as an association list
  from column names to cell values. Python integers are unbounded (\<^typ>\<open>int\<close>); a Python
  float is the rational number that is its value. \<^verbatim>\<open>.copy()\<close> is the identity on
  values.
\<close>

datatype pyval =
    PInt int
  | PFloat rat
  | PStr string
  | PDatetime int
  | PTuple "pyval list"

type_synonym row = "(string \<times> pyval) list"
type_synonym table = "row list"

text \<open>Python truthiness (\<^verbatim>\<open>if x\<close>, \<^verbatim>\<open>not x\<close>) of a value and of an optional argument.\<close>

fun truthy :: "pyval \<Rightarrow> bool" where
  "truthy (PInt i) = (i \<noteq> 0)"
| "truthy (PFloat r) = (r \<noteq> 0)"
| "truthy (PStr s) = (s \<noteq> [])"
| "truthy (PDatetime d) = True"
| "truthy (PTuple vs) = (vs \<noteq> [])"

fun truthy_opt :: "pyval option \<Rightarrow> bool" where
  "truthy_opt None = False"
| "truthy_opt (Some v) = truthy v"

fun truthy_int :: "int option \<Rightarrow> bool" where
  "truthy_int None = False"
| "truthy_int (Some i) = (i \<noteq> 0)"

fun truthy_rat :: "rat option \<Rightarrow> bool" where
  "truthy_rat None = False"
| "truthy_rat (Some r) = (r \<noteq> 0)"

text \<open>
  Every \<^verbatim>\<open>raise\<close> of the module is a constructor. The two out-of-range errors carry the
  group name that the message shows (\<open>None\<close> when the message has no id part).
\<close>

datatype error =
    At_least_one_timestamp
  | At_least_one_index
  | At_least_one_fraction
  | Negative_start_offset
  | Fraction_not_in_unit_interval
  | Empty_selection "pyval option"
  | Negative_start_index "pyval option"
  | Bad_location
  | No_objects_to_concatenate
  | Not_enough_values_to_unpack
  | KeyError string
  | IndexError
  | TypeError
  | Library_ValueError
  | Invalid_meta_data
  | Missing_attribute_section_before_data
  | Missing_data_tag
  | Missing_attributes_or_values
  | Empty_series
  | All_values_missing
  | Invalid_attribute_type
  | Invalid_attribute_value
  | Empty_file
  | Missing_attribute_section
  | Missing_series_information

text \<open>
  \<^verbatim>\<open>int(x)\<close> on a float truncates towards zero.
\<close>

definition py_int :: "rat \<Rightarrow> int" where
  "py_int r = (if 0 \<le> r then \<lfloor>r\<rfloor> else \<lceil>r\<rceil>)"

text \<open>
  \<^verbatim>\<open>df.iloc[start:stop]\<close>: Python slicing with step 1. A negative bound counts from the
  end, every bound is clipped to the length, \<open>None\<close> is the respective end.
\<close>

definition clip_index :: "int \<Rightarrow> int \<Rightarrow> int" where
  "clip_index n i = (if i < 0 then max (n + i) 0 else min i n)"

definition iloc :: "int option \<Rightarrow> int option \<Rightarrow> 'a list \<Rightarrow> 'a list" where
  "iloc start stop xs =
     (let n = int (length xs);
          lo = (case start of None \<Rightarrow> 0 | Some i \<Rightarrow> clip_index n i);
          hi = (case stop of None \<Rightarrow> n | Some j \<Rightarrow> clip_index n j)
      in take (nat (hi - lo)) (drop (nat lo) xs))"

section \<open>Grouping\<close>

text \<open>
  \<^verbatim>\<open>_get_groupby_columns\<close>: one id column is passed to \<^verbatim>\<open>groupby\<close> as a plain string,
  several as the list. The \<^verbatim>\<open>isinstance\<close> check cannot fail on a \<^typ>\<open>string list\<close>.
\<close>

datatype groupby_columns = Single string | Multiple "string list"

definition get_groupby_columns :: "string list \<Rightarrow> groupby_columns" where
  "get_groupby_columns id_columns =
     (case id_columns of [c] \<Rightarrow> Single c | _ \<Rightarrow> Multiple id_columns)"

fun lookup_all :: "row \<Rightarrow> string list \<Rightarrow> error + pyval list" where
  "lookup_all r [] = Inr []"
| "lookup_all r (c # cs) =
     (case map_of r c of
        None \<Rightarrow> Inl (KeyError c)
      | Some v \<Rightarrow> (case lookup_all r cs of Inl e \<Rightarrow> Inl e | Inr vs \<Rightarrow> Inr (v # vs)))"

text \<open>
  The name pandas gives a group: the cell itself for a single key column, the tuple of
  the cells for a list of key columns.
\<close>

definition group_name :: "groupby_columns \<Rightarrow> row \<Rightarrow> error + pyval" where
  "group_name cols r =
     (case cols of
        Single c \<Rightarrow> (case map_of r c of None \<Rightarrow> Inl (KeyError c) | Some v \<Rightarrow> Inr v)
      | Multiple cs \<Rightarrow> (case lookup_all r cs of Inl e \<Rightarrow> Inl e | Inr vs \<Rightarrow> Inr (PTuple vs)))"

fun group_names :: "groupby_columns \<Rightarrow> table \<Rightarrow> error + pyval list" where
  "group_names cols [] = Inr []"
| "group_names cols (r # rs) =
     (case group_name cols r of
        Inl e \<Rightarrow> Inl e
      | Inr k \<Rightarrow> (case group_names cols rs of Inl e \<Rightarrow> Inl e | Inr ks \<Rightarrow> Inr (k # ks)))"

text \<open>
  \<^verbatim>\<open>df.groupby(by)\<close>, iterated: the pairs of a group name and the rows of that group in
  frame order. pandas visits the groups in the sorted order of their names; that ordering
  of the distinct names is the parameter \<open>sort_keys\<close>.
\<close>

definition groupby :: "(pyval list \<Rightarrow> pyval list) \<Rightarrow> groupby_columns \<Rightarrow> table \<Rightarrow> error + (pyval \<times> table) list" where
  "groupby sort_keys cols df =
     (case group_names cols df of
        Inl e \<Rightarrow> Inl e
      | Inr ks \<Rightarrow>
          Inr (map (\<lambda>k. (k, filter (\<lambda>r. group_name cols r = Inr k) df)) (sort_keys (remdups ks))))"

text \<open>\<^verbatim>\<open>pd.concat(result)\<close> raises on an empty list of frames.\<close>

definition pd_concat :: "table list \<Rightarrow> error + table" where
  "pd_concat frames = (if frames = [] then Inl No_objects_to_concatenate else Inr (concat frames))"

text \<open>
  The loop \<^verbatim>\<open>for name, group in groups: result.append(f(group, name))\<close>; the first group
  that raises ends it.
\<close>

fun for_groups :: "(table \<Rightarrow> pyval option \<Rightarrow> error + 'a) \<Rightarrow> (pyval \<times> table) list \<Rightarrow> error + 'a list" where
  "for_groups f [] = Inr []"
| "for_groups f ((name, group_df) # gs) =
     (case f group_df (Some name) of
        Inl e \<Rightarrow> Inl e
      | Inr x \<Rightarrow> (case for_groups f gs of Inl e \<Rightarrow> Inl e | Inr xs \<Rightarrow> Inr (x # xs)))"

section \<open>Selection by index\<close>

text \<open>
  \<^verbatim>\<open>_split_group_by_index\<close>. The message of the error gets the part \<^verbatim>\<open>(id = name)\<close> when
  \<^verbatim>\<open>name\<close> is truthy.
\<close>

definition split_group_by_index :: "table \<Rightarrow> pyval option \<Rightarrow> int option \<Rightarrow> int option \<Rightarrow> error + table" where
  "split_group_by_index group_df name start_index end_index =
     (if truthy_int start_index \<and> (case start_index of None \<Rightarrow> False | Some s \<Rightarrow> s \<ge> int (length group_df))
      then Inl (Empty_selection (if truthy_opt name then name else None))
      else if \<not> truthy_int start_index then Inr (iloc None end_index group_df)
      else if \<not> truthy_int end_index then Inr (iloc start_index None group_df)
      else Inr (iloc start_index end_index group_df))"

text \<open>\<^verbatim>\<open>select_by_index\<close>; \<^verbatim>\<open>not id_columns\<close> holds for \<^verbatim>\<open>None\<close> and for the empty list.\<close>

fun no_id_columns :: "string list option \<Rightarrow> bool" where
  "no_id_columns None = True"
| "no_id_columns (Some cs) = (cs = [])"

definition select_by_index :: "(pyval list \<Rightarrow> pyval list) \<Rightarrow> table \<Rightarrow> string list option \<Rightarrow> int option \<Rightarrow> int option \<Rightarrow> error + table" where
  "select_by_index sort_keys df id_columns start_index end_index =
     (if \<not> truthy_int start_index \<and> \<not> truthy_int end_index then Inl At_least_one_index
      else if no_id_columns id_columns then split_group_by_index df None start_index end_index
      else
        (case groupby sort_keys (get_groupby_columns (case id_columns of None \<Rightarrow> [] | Some cs \<Rightarrow> cs)) df of
           Inl e \<Rightarrow> Inl e
         | Inr groups \<Rightarrow>
             (case for_groups (\<lambda>group_df name. split_group_by_index group_df name start_index end_index) groups of
                Inl e \<Rightarrow> Inl e
              | Inr result \<Rightarrow> pd_concat result)))"

text \<open>
  \<^verbatim>\<open>pd.concat\<close> of two selections, each of which may have raised, and the rows of a
  table at the positions \<open>i\<close> with \<open>a \<le> i < b\<close>.
\<close>

definition concat_selected :: "error + table \<Rightarrow> error + table \<Rightarrow> error + table" where
  "concat_selected first_part second_part =
     (case first_part of
        Inl e \<Rightarrow> Inl e
      | Inr xs \<Rightarrow> (case second_part of Inl e \<Rightarrow> Inl e | Inr ys \<Rightarrow> Inr (xs @ ys)))"

definition row_range :: "int \<Rightarrow> int \<Rightarrow> 'a list \<Rightarrow> 'a list" where
  "row_range a b xs = take (nat b - nat a) (drop (nat a) xs)"

text \<open>
  The position before which \<^verbatim>\<open>_split_group_by_index\<close> stops for a truthy start index: the
  length of the group when \<^verbatim>\<open>end_index\<close> is falsy, else the end index as the slice
  reads it.
\<close>

definition end_position :: "int \<Rightarrow> int option \<Rightarrow> int" where
  "end_position l end_index =
     (case end_index of
        None \<Rightarrow> l
      | Some e \<Rightarrow> (if e = 0 then l else clip_index l e))"

section \<open>Selection by relative fraction\<close>

text \<open>
  The product \<^verbatim>\<open>length * fraction\<close> of an integer and a float is rounded by the
  machine, so in \<^verbatim>\<open>_split_group_by_fraction\<close> and \<^verbatim>\<open>_split_group_train_test\<close> it is the
  parameter \<open>py_mul\<close>, which gives the value of the product as Python computes it; a
  fraction is the rational value of its float.

  \<^verbatim>\<open>_split_group_by_fraction\<close>: \<^verbatim>\<open>start_index = int(length * start_fraction) - start_offset\<close>
  when a start fraction is given (\<^verbatim>\<open>is not None\<close>), with the error for a negative start
  index naming the group when \<^verbatim>\<open>name\<close> is truthy.
\<close>

text \<open>The product without rounding, as it is for an integer and for many floats.\<close>

definition exact_times :: "int \<Rightarrow> rat \<Rightarrow> rat" where
  "exact_times n x = of_int n * x"

definition split_group_by_fraction :: "(int \<Rightarrow> rat \<Rightarrow> rat) \<Rightarrow> table \<Rightarrow> pyval option \<Rightarrow> rat option \<Rightarrow> int \<Rightarrow> rat option \<Rightarrow> error + table" where
  "split_group_by_fraction py_mul group_df name start_fraction start_offset end_fraction =
     (let len = int (length group_df);
          start_index = (case start_fraction of
                           None \<Rightarrow> None
                         | Some sf \<Rightarrow> Some (py_int (py_mul len sf) - start_offset));
          end_index = (case end_fraction of
                         None \<Rightarrow> None
                       | Some ef \<Rightarrow> Some (py_int (py_mul len ef)))
      in if (case start_index of None \<Rightarrow> False | Some s \<Rightarrow> s < 0)
         then Inl (Negative_start_index (if truthy_opt name then name else None))
         else split_group_by_index group_df name start_index end_index)"

definition select_by_relative_fraction :: "(int \<Rightarrow> rat \<Rightarrow> rat) \<Rightarrow> (pyval list \<Rightarrow> pyval list) \<Rightarrow> table \<Rightarrow> string list option \<Rightarrow> rat option \<Rightarrow> int \<Rightarrow> rat option \<Rightarrow> error + table" where
  "select_by_relative_fraction py_mul sort_keys df id_columns start_fraction start_offset end_fraction =
     (if \<not> truthy_rat start_fraction \<and> \<not> truthy_rat end_fraction then Inl At_least_one_fraction
      else if start_offset < 0 then Inl Negative_start_offset
      else if no_id_columns id_columns
      then split_group_by_fraction py_mul df None start_fraction start_offset end_fraction
      else
        (case groupby sort_keys (get_groupby_columns (case id_columns of None \<Rightarrow> [] | Some cs \<Rightarrow> cs)) df of
           Inl e \<Rightarrow> Inl e
         | Inr groups \<Rightarrow>
             (case for_groups (\<lambda>group_df name. split_group_by_fraction py_mul group_df name start_fraction start_offset end_fraction) groups of
                Inl e \<Rightarrow> Inl e
              | Inr result \<Rightarrow> pd_concat result)))"

section \<open>Selection by fixed fraction\<close>

text \<open>
  \<^verbatim>\<open>FractionLocation.FIRST.value\<close> is the string \<^verbatim>\<open>first\<close>, \<^verbatim>\<open>FractionLocation.LAST.value\<close>
  the string \<^verbatim>\<open>last\<close>; \<^verbatim>\<open>location\<close> is compared with them as a string.
\<close>

definition split_group_by_fixed_fraction :: "table \<Rightarrow> pyval option \<Rightarrow> rat \<Rightarrow> string \<Rightarrow> int \<Rightarrow> error + table" where
  "split_group_by_fixed_fraction group_df name fraction location minimum_size =
     (let l = int (length group_df);
          fraction_size = py_int (fraction * of_int (l - minimum_size)) + minimum_size
      in if location = ''first''
         then split_group_by_index group_df name (Some 0) (Some fraction_size)
         else if location = ''last''
         then split_group_by_index group_df name (Some (l - fraction_size)) (Some l)
         else Inl Bad_location)"

definition select_by_fixed_fraction :: "(pyval list \<Rightarrow> pyval list) \<Rightarrow> table \<Rightarrow> string list option \<Rightarrow> rat \<Rightarrow> string \<Rightarrow> int \<Rightarrow> error + table" where
  "select_by_fixed_fraction sort_keys df id_columns fraction location minimum_size =
     (if fraction < 0 \<or> fraction > 1 then Inl Fraction_not_in_unit_interval
      else if no_id_columns id_columns
      then split_group_by_fixed_fraction df None fraction location minimum_size
      else
        (case groupby sort_keys (get_groupby_columns (case id_columns of None \<Rightarrow> [] | Some cs \<Rightarrow> cs)) df of
           Inl e \<Rightarrow> Inl e
         | Inr groups \<Rightarrow>
             (case for_groups (\<lambda>group_df name. split_group_by_fixed_fraction group_df name fraction location minimum_size) groups of
                Inl e \<Rightarrow> Inl e
              | Inr result \<Rightarrow> pd_concat result)))"

section \<open>The three-way splitter\<close>

text \<open>
  \<^verbatim>\<open>_split_group_train_test\<close>: three calls of \<^verbatim>\<open>_split_group_by_index\<close> in the order
  train, valid, test; the test call leaves \<^verbatim>\<open>end_index\<close> at its default \<^verbatim>\<open>None\<close>.
\<close>

definition split_group_train_test :: "(int \<Rightarrow> rat \<Rightarrow> rat) \<Rightarrow> table \<Rightarrow> pyval option \<Rightarrow> rat \<Rightarrow> rat \<Rightarrow> int \<Rightarrow> error + (table \<times> table \<times> table)" where
  "split_group_train_test py_mul group_df name train test valid_test_offset =
     (let l = int (length group_df);
          train_size = py_int (py_mul l train);
          test_size = py_int (py_mul l test);
          valid_size = l - train_size - test_size
      in case split_group_by_index group_df name (Some 0) (Some train_size) of
           Inl e \<Rightarrow> Inl e
         | Inr train_df \<Rightarrow>
            (case split_group_by_index group_df name
                    (Some (train_size - valid_test_offset)) (Some (train_size + valid_size)) of
               Inl e \<Rightarrow> Inl e
             | Inr valid_df \<Rightarrow>
                (case split_group_by_index group_df name
                        (Some (train_size + valid_size - valid_test_offset)) None of
                   Inl e \<Rightarrow> Inl e
                 | Inr test_df \<Rightarrow> Inr (train_df, valid_df, test_df))))"

text \<open>
  \<^verbatim>\<open>train_test_split\<close>; in the grouped branch \<^verbatim>\<open>zip(*result)\<close> is unpacked into three
  names, which raises when there is no group.
\<close>

definition train_test_split :: "(int \<Rightarrow> rat \<Rightarrow> rat) \<Rightarrow> (pyval list \<Rightarrow> pyval list) \<Rightarrow> table \<Rightarrow> string list option \<Rightarrow> rat \<Rightarrow> rat \<Rightarrow> int \<Rightarrow> error + (table \<times> table \<times> table)" where
  "train_test_split py_mul sort_keys df id_columns train test valid_test_offset =
     (if no_id_columns id_columns
      then split_group_train_test py_mul df None train test valid_test_offset
      else
        (case groupby sort_keys (get_groupby_columns (case id_columns of None \<Rightarrow> [] | Some cs \<Rightarrow> cs)) df of
           Inl e \<Rightarrow> Inl e
         | Inr groups \<Rightarrow>
             (case for_groups (\<lambda>group_df name. split_group_train_test py_mul group_df name train test valid_test_offset) groups of
                Inl e \<Rightarrow> Inl e
              | Inr result \<Rightarrow>
                  if result = [] then Inl Not_enough_values_to_unpack
                  else Inr (concat (map fst result),
                            concat (map (\<lambda>t. fst (snd t)) result),
                            concat (map (\<lambda>t. snd (snd t)) result)))))"

section \<open>Selection by timestamp\<close>

text \<open>
  \<^verbatim>\<open>df[timestamp_column]\<close> is the list of the cells of that column and raises
  \<^verbatim>\<open>KeyError\<close> when the column is missing. The elementwise comparisons \<^verbatim>\<open>>=\<close> and
  \<^verbatim>\<open><\<close> of pandas between a cell and a bound are the parameters \<open>ge\<close> and \<open>lt\<close>.
\<close>

fun get_column :: "string \<Rightarrow> table \<Rightarrow> error + pyval list" where
  "get_column c [] = Inr []"
| "get_column c (r # rs) =
     (case map_of r c of
        None \<Rightarrow> Inl (KeyError c)
      | Some v \<Rightarrow> (case get_column c rs of Inl e \<Rightarrow> Inl e | Inr vs \<Rightarrow> Inr (v # vs)))"

text \<open>\<^verbatim>\<open>df[mask]\<close>: the rows whose entry of the boolean mask is true.\<close>

definition boolean_mask :: "table \<Rightarrow> bool list \<Rightarrow> table" where
  "boolean_mask df flags = map fst (filter snd (zip df flags))"

definition select_by_timestamp :: "(pyval \<Rightarrow> pyval \<Rightarrow> bool) \<Rightarrow> (pyval \<Rightarrow> pyval \<Rightarrow> bool) \<Rightarrow> table \<Rightarrow> string \<Rightarrow> pyval option \<Rightarrow> pyval option \<Rightarrow> error + table" where
  "select_by_timestamp ge lt df timestamp_column start_timestamp end_timestamp =
     (if \<not> truthy_opt start_timestamp \<and> \<not> truthy_opt end_timestamp then Inl At_least_one_timestamp
      else
        (case get_column timestamp_column df of
           Inl e \<Rightarrow> Inl e
         | Inr ts \<Rightarrow>
            (if \<not> truthy_opt start_timestamp
             then (case end_timestamp of
                     None \<Rightarrow> Inl TypeError
                   | Some e \<Rightarrow> Inr (boolean_mask df (map (\<lambda>t. lt t e) ts)))
             else if \<not> truthy_opt end_timestamp
             then (case start_timestamp of
                     None \<Rightarrow> Inl TypeError
                   | Some s \<Rightarrow> Inr (boolean_mask df (map (\<lambda>t. ge t s) ts)))
             else (case (start_timestamp, end_timestamp) of
                     (Some s, Some e) \<Rightarrow> Inr (boolean_mask df (map (\<lambda>t. ge t s \<and> lt t e) ts))
                   | _ \<Rightarrow> Inl TypeError))))"

section \<open>The split-policy resolver\<close>

text \<open>
  A split configuration is a Python dict: an association list looked up with
  \<^const>\<open>map_of\<close>. A value is a scalar or a list of numbers; the numbers (integers or
  floats) are rationals. The dicts that \<^verbatim>\<open>get_split_params\<close> builds are association
  lists in insertion order.
\<close>

datatype config_value = Scalar rat | Bounds "rat list"

datatype split_function = Select_by_relative_fraction | Select_by_index | Train_test_split

type_synonym split_config = "(string \<times> config_value) list"

text \<open>\<^verbatim>\<open>split_config[group][i]\<close> with the three ways in which it raises.\<close>

definition config_item :: "split_config \<Rightarrow> string \<Rightarrow> nat \<Rightarrow> error + rat" where
  "config_item split_config grp i =
     (case map_of split_config grp of
        None \<Rightarrow> Inl (KeyError grp)
      | Some (Scalar x) \<Rightarrow> Inl TypeError
      | Some (Bounds bs) \<Rightarrow> (if i < length bs then Inr (bs ! i) else Inl IndexError))"

text \<open>\<^verbatim>\<open>context_length if (context_length and group != "train") else 0\<close>\<close>

definition context_offset :: "int option \<Rightarrow> string \<Rightarrow> int" where
  "context_offset context_length grp =
     (case context_length of
        None \<Rightarrow> 0
      | Some c \<Rightarrow> (if c \<noteq> 0 \<and> grp \<noteq> ''train'' then c else 0))"

text \<open>
  The body of the loop for one split: the test
  \<^verbatim>\<open>((c[0] < 1) and (c[0] != 0)) or (c[1] < 1)\<close> and the two dict literals. The
  difference of a boundary and the context length is rounded when the boundary is a
  float, so it is the parameter \<open>py_sub\<close>; \<open>exact_minus\<close> is the difference
  without rounding, as it is for integers.
\<close>

definition exact_minus :: "rat \<Rightarrow> int \<Rightarrow> rat" where
  "exact_minus x n = x - of_int n"

definition split_entry :: "(rat \<Rightarrow> int \<Rightarrow> rat) \<Rightarrow> split_config \<Rightarrow> int option \<Rightarrow> string \<Rightarrow> error + ((string \<times> rat) list \<times> split_function)" where
  "split_entry py_sub split_config context_length grp =
     (case config_item split_config grp 0 of
        Inl e \<Rightarrow> Inl e
      | Inr b0 \<Rightarrow>
         (case config_item split_config grp 1 of
            Inl e \<Rightarrow> Inl e
          | Inr b1 \<Rightarrow>
             (if (b0 < 1 \<and> b0 \<noteq> 0) \<or> b1 < 1
              then Inr ([(''start_fraction'', b0), (''end_fraction'', b1),
                         (''start_offset'', of_int (context_offset context_length grp))],
                        Select_by_relative_fraction)
              else Inr ([(''start_index'', py_sub b0 (context_offset context_length grp)),
                         (''end_index'', b1)],
                        Select_by_index))))"

fun split_entries :: "(rat \<Rightarrow> int \<Rightarrow> rat) \<Rightarrow> split_config \<Rightarrow> int option \<Rightarrow> string list \<Rightarrow> error + (string \<times> (string \<times> rat) list \<times> split_function) list" where
  "split_entries py_sub split_config context_length [] = Inr []"
| "split_entries py_sub split_config context_length (grp # grps) =
     (case split_entry py_sub split_config context_length grp of
        Inl e \<Rightarrow> Inl e
      | Inr entry \<Rightarrow>
         (case split_entries py_sub split_config context_length grps of
            Inl e \<Rightarrow> Inl e
          | Inr entries \<Rightarrow> Inr ((grp, entry) # entries)))"

text \<open>
  The result of \<^verbatim>\<open>get_split_params\<close>: with a \<^verbatim>\<open>valid\<close> key the two dicts
  \<^verbatim>\<open>split_params\<close> and \<^verbatim>\<open>split_function\<close>, keyed by the split; without it the
  parameters of \<^verbatim>\<open>train_test_split\<close>.
\<close>

datatype split_result =
    Three_way "(string \<times> (string \<times> rat) list) list" "(string \<times> split_function) list"
  | Two_way config_value config_value int

definition get_split_params :: "(rat \<Rightarrow> int \<Rightarrow> rat) \<Rightarrow> split_config \<Rightarrow> int option \<Rightarrow> error + split_result" where
  "get_split_params py_sub split_config context_length =
     (if map_of split_config ''valid'' \<noteq> None
      then (case split_entries py_sub split_config context_length [''train'', ''test'', ''valid''] of
              Inl e \<Rightarrow> Inl e
            | Inr entries \<Rightarrow>
                Inr (Three_way (map (\<lambda>(grp, params, f). (grp, params)) entries)
                               (map (\<lambda>(grp, params, f). (grp, f)) entries)))
      else (case map_of split_config ''train'' of
              None \<Rightarrow> Inl (KeyError ''train'')
            | Some tr \<Rightarrow>
               (case map_of split_config ''test'' of
                  None \<Rightarrow> Inl (KeyError ''test'')
                | Some te \<Rightarrow>
                    Inr (Two_way tr te (case context_length of None \<Rightarrow> 0 | Some c \<Rightarrow> c)))))"

section \<open>Joining lists without repeats\<close>

text \<open>
  \<^verbatim>\<open>join_list_without_repeat\<close>: the loop carries \<^verbatim>\<open>final\<close> (\<^verbatim>\<open>None\<close> before the first
  list) and \<^verbatim>\<open>final_set\<close>. Without any list the function returns \<^verbatim>\<open>None\<close>.
\<close>

fun join_loop :: "'a list option \<times> 'a set \<Rightarrow> 'a list list \<Rightarrow> 'a list option \<times> 'a set" where
  "join_loop st [] = st"
| "join_loop (final, final_set) (alist # more_lists) =
     (let final' = (case final of
                      None \<Rightarrow> alist
                    | Some f \<Rightarrow> f @ filter (\<lambda>item. item \<notin> final_set) alist)
      in join_loop (Some final', set final') more_lists)"

definition join_list_without_repeat :: "'a list list \<Rightarrow> 'a list option" where
  "join_list_without_repeat list_args = fst (join_loop (None, {}) list_args)"


section \<open>The legacy format reader\<close>

text \<open>
  \<^verbatim>\<open>convert_tsf_to_dataframe\<close> reads a file line by line. The model takes the list of
  the lines; a character is a byte of the cp1252 file. The conversions of the Python
  library that the reader calls (\<^verbatim>\<open>float\<close>, \<^verbatim>\<open>int\<close>, \<^verbatim>\<open>strtobool\<close>,
  \<^verbatim>\<open>datetime.strptime\<close> with the format of the reader) are parameters; each returns
  \<open>None\<close> where the Python function raises \<^verbatim>\<open>ValueError\<close>.
\<close>

record 'f library =
  float_of :: "string \<Rightarrow> 'f option"
  int_of :: "string \<Rightarrow> int option"
  strtobool :: "string \<Rightarrow> bool option"
  strptime :: "string \<Rightarrow> int option"

text \<open>\<^verbatim>\<open>str.strip()\<close> removes the whitespace characters at both ends.\<close>

definition is_space :: "char \<Rightarrow> bool" where
  "is_space c = (c \<in> {CHR 0x09, CHR 0x0A, CHR 0x0B, CHR 0x0C, CHR 0x0D,
                        CHR 0x1C, CHR 0x1D, CHR 0x1E, CHR 0x1F, CHR 0x20, CHR 0xA0})"

definition strip :: "string \<Rightarrow> string" where
  "strip s = rev (dropWhile is_space (rev (dropWhile is_space s)))"

definition startswith :: "string \<Rightarrow> string \<Rightarrow> bool" where
  "startswith p s = (take (length p) s = p)"

text \<open>\<^verbatim>\<open>s.split(sep)\<close> for a separator of one character; the result is never empty.\<close>

fun split_on :: "char \<Rightarrow> string \<Rightarrow> string list" where
  "split_on sep [] = [[]]"
| "split_on sep (c # cs) =
     (if c = sep then [] # split_on sep cs
      else (case split_on sep cs of
              [] \<Rightarrow> [[c]]
            | w # ws \<Rightarrow> (c # w) # ws))"

datatype 'f series_value = Replaced string | Number 'f

datatype 'f cell = Int_cell int | Str_cell string | Date_cell int | Series_cell "'f series_value list"

text \<open>A Python dict with insertion order: assignment and \<^verbatim>\<open>d[k].append(x)\<close>.\<close>

fun dict_set :: "'k \<Rightarrow> 'v \<Rightarrow> ('k \<times> 'v) list \<Rightarrow> ('k \<times> 'v) list" where
  "dict_set k v [] = [(k, v)]"
| "dict_set k v ((k', v') # d) =
     (if k = k' then (k, v) # d else (k', v') # dict_set k v d)"

definition dict_append :: "'k \<Rightarrow> 'v \<Rightarrow> ('k \<times> 'v list) list \<Rightarrow> error + ('k \<times> 'v list) list" where
  "dict_append k x d =
     (case map_of d k of
        None \<Rightarrow> Inl (KeyError [])
      | Some vs \<Rightarrow> Inr (dict_set k (vs @ [x]) d))"

record 'f tsf_state =
  col_names :: "string list"
  col_types :: "string list"
  all_data :: "(string \<times> 'f cell list) list"
  all_series :: "'f series_value list list"
  line_count :: nat
  frequency :: "string option"
  forecast_horizon :: "int option"
  contain_missing_values :: "bool option"
  contain_equal_length :: "bool option"
  found_data_tag :: bool
  found_data_section :: bool
  started_reading_data_section :: bool

definition tsf_init :: "'f tsf_state" where
  "tsf_init =
     \<lparr>col_names = [], col_types = [], all_data = [], all_series = [], line_count = 0,
      frequency = None, forecast_horizon = None, contain_missing_values = None,
      contain_equal_length = None, found_data_tag = False, found_data_section = False,
      started_reading_data_section = False\<rparr>"

text \<open>The branch for a line that starts with \<^verbatim>\<open>@\<close>.\<close>

definition read_meta_data :: "'f library \<Rightarrow> 'f tsf_state \<Rightarrow> string \<Rightarrow> error + 'f tsf_state" where
  "read_meta_data lib st line =
     (if \<not> startswith ''@data'' line
      then
        (let line_content = split_on CHR '' '' line
         in if startswith ''@attribute'' line
            then
              (if length line_content \<noteq> 3 then Inl Invalid_meta_data
               else Inr (st\<lparr>col_names := col_names st @ [line_content ! 1],
                            col_types := col_types st @ [line_content ! 2]\<rparr>))
            else
              (if length line_content \<noteq> 2 then Inl Invalid_meta_data
               else if startswith ''@frequency'' line
               then Inr (st\<lparr>frequency := Some (line_content ! 1)\<rparr>)
               else if startswith ''@horizon'' line
               then (case int_of lib (line_content ! 1) of
                       None \<Rightarrow> Inl Library_ValueError
                     | Some h \<Rightarrow> Inr (st\<lparr>forecast_horizon := Some h\<rparr>))
               else if startswith ''@missing'' line
               then (case strtobool lib (line_content ! 1) of
                       None \<Rightarrow> Inl Library_ValueError
                     | Some b \<Rightarrow> Inr (st\<lparr>contain_missing_values := Some b\<rparr>))
               else if startswith ''@equallength'' line
               then (case strtobool lib (line_content ! 1) of
                       None \<Rightarrow> Inl Library_ValueError
                     | Some b \<Rightarrow> Inr (st\<lparr>contain_equal_length := Some b\<rparr>))
               else Inr st))
      else
        (if col_names st = [] then Inl Missing_attribute_section_before_data
         else Inr (st\<lparr>found_data_tag := True\<rparr>)))"

text \<open>The loop over the values of a series: \<^verbatim>\<open>?\<close> becomes the replacement.\<close>

fun to_numeric_series :: "'f library \<Rightarrow> string \<Rightarrow> string list \<Rightarrow> error + 'f series_value list" where
  "to_numeric_series lib replace_missing_vals_with [] = Inr []"
| "to_numeric_series lib replace_missing_vals_with (val # vals) =
     (if val = ''?''
      then (case to_numeric_series lib replace_missing_vals_with vals of
              Inl e \<Rightarrow> Inl e
            | Inr ns \<Rightarrow> Inr (Replaced replace_missing_vals_with # ns))
      else (case float_of lib val of
              None \<Rightarrow> Inl Library_ValueError
            | Some x \<Rightarrow>
               (case to_numeric_series lib replace_missing_vals_with vals of
                  Inl e \<Rightarrow> Inl e
                | Inr ns \<Rightarrow> Inr (Number x # ns))))"

text \<open>
  The loop over the attributes of a data row, on the triples of column name, column
  type and field.
\<close>

fun cast_attributes :: "'f library \<Rightarrow> (string \<times> string \<times> string) list \<Rightarrow> (string \<times> 'f cell list) list \<Rightarrow> error + (string \<times> 'f cell list) list" where
  "cast_attributes lib [] d = Inr d"
| "cast_attributes lib ((col, ty, field) # remaining) d =
     (if ty = ''numeric''
      then (case int_of lib field of
              None \<Rightarrow> Inl Library_ValueError
            | Some i \<Rightarrow>
               (case dict_append col (Int_cell i) d of
                  Inl e \<Rightarrow> Inl e
                | Inr d' \<Rightarrow> cast_attributes lib remaining d'))
      else if ty = ''string''
      then (case dict_append col (Str_cell field) d of
              Inl e \<Rightarrow> Inl e
            | Inr d' \<Rightarrow> cast_attributes lib remaining d')
      else if ty = ''date''
      then (case strptime lib field of
              None \<Rightarrow> Inl Library_ValueError
            | Some t \<Rightarrow>
               (case dict_append col (Date_cell t) d of
                  Inl e \<Rightarrow> Inl e
                | Inr d' \<Rightarrow> cast_attributes lib remaining d'))
      else Inl Invalid_attribute_type)"

text \<open>The branch for a line that starts neither with \<^verbatim>\<open>@\<close> nor with \<^verbatim>\<open>#\<close>.\<close>

definition read_series :: "'f library \<Rightarrow> string \<Rightarrow> 'f tsf_state \<Rightarrow> string \<Rightarrow> error + 'f tsf_state" where
  "read_series lib replace_missing_vals_with st line =
     (if col_names st = [] then Inl Missing_attribute_section_before_data
      else if \<not> found_data_tag st then Inl Missing_data_tag
      else
        (let st1 = (if \<not> started_reading_data_section st
                    then st\<lparr>started_reading_data_section := True,
                            found_data_section := True,
                            all_series := [],
                            all_data := foldl (\<lambda>d col. dict_set col [] d) (all_data st) (col_names st)\<rparr>
                    else st);
             full_info = split_on CHR '':'' line
         in if length full_info \<noteq> length (col_names st1) + 1 then Inl Missing_attributes_or_values
            else
              (let series = split_on CHR '','' (full_info ! (length full_info - 1))
               in if length series = 0 then Inl Empty_series
                  else
                    (case to_numeric_series lib replace_missing_vals_with series of
                       Inl e \<Rightarrow> Inl e
                     | Inr numeric_series \<Rightarrow>
                        (if count_list numeric_series (Replaced replace_missing_vals_with)
                              = length numeric_series
                         then Inl All_values_missing
                         else
                           (case cast_attributes lib
                                   (zip (col_names st1) (zip (col_types st1) full_info))
                                   (all_data st1) of
                              Inl e \<Rightarrow> Inl e
                            | Inr d \<Rightarrow>
                                Inr (st1\<lparr>all_series := all_series st1 @ [numeric_series],
                                         all_data := d\<rparr>)))))))"

text \<open>The body of the loop over the lines; only a non-empty line is counted.\<close>

definition process_line :: "'f library \<Rightarrow> string \<Rightarrow> 'f tsf_state \<Rightarrow> string \<Rightarrow> error + 'f tsf_state" where
  "process_line lib replace_missing_vals_with st raw =
     (let line = strip raw
      in if line = [] then Inr st
         else
           (case (if startswith ''@'' line then read_meta_data lib st line
                  else if \<not> startswith ''#'' line
                  then read_series lib replace_missing_vals_with st line
                  else Inr st) of
              Inl e \<Rightarrow> Inl e
            | Inr st' \<Rightarrow> Inr (st'\<lparr>line_count := line_count st' + 1\<rparr>)))"

fun process_lines :: "'f library \<Rightarrow> string \<Rightarrow> 'f tsf_state \<Rightarrow> string list \<Rightarrow> error + 'f tsf_state" where
  "process_lines lib replace_missing_vals_with st [] = Inr st"
| "process_lines lib replace_missing_vals_with st (raw # remaining) =
     (case process_line lib replace_missing_vals_with st raw of
        Inl e \<Rightarrow> Inl e
      | Inr st' \<Rightarrow> process_lines lib replace_missing_vals_with st' remaining)"

text \<open>
  The reader: the loop, the three final checks, and the returned tuple of the columns
  handed to \<^verbatim>\<open>pd.DataFrame\<close> and the four metadata values.
\<close>

definition convert_tsf_to_dataframe :: "'f library \<Rightarrow> string list \<Rightarrow> string \<Rightarrow> string \<Rightarrow> error + ((string \<times> 'f cell list) list \<times> string option \<times> int option \<times> bool option \<times> bool option)" where
  "convert_tsf_to_dataframe lib file_lines replace_missing_vals_with value_column_name =
     (case process_lines lib replace_missing_vals_with tsf_init file_lines of
        Inl e \<Rightarrow> Inl e
      | Inr st \<Rightarrow>
         (if line_count st = 0 then Inl Empty_file
          else if col_names st = [] then Inl Missing_attribute_section
          else if \<not> found_data_section st then Inl Missing_series_information
          else Inr (dict_set value_column_name (map Series_cell (all_series st)) (all_data st),
                    frequency st, forecast_horizon st,
                    contain_missing_values st, contain_equal_length st)))"

text \<open>A data row: after stripping, not empty and starting neither with \<^verbatim>\<open>@\<close> nor \<^verbatim>\<open>#\<close>.\<close>

definition is_data_row :: "string \<Rightarrow> bool" where
  "is_data_row raw =
     (strip raw \<noteq> [] \<and> \<not> startswith ''@'' (strip raw) \<and> \<not> startswith ''#'' (strip raw))"

text \<open>
  The state of the reader before any data row: no data section yet, and a counted line
  for every attribute read.
\<close>

definition no_series_yet :: "'f tsf_state \<Rightarrow> bool" where
  "no_series_yet st = (\<not> found_data_section st \<and> (col_names st = [] \<or> 0 < line_count st))"

text \<open>
  A library in which every conversion raises; it evaluates the reader on files whose
  lines call no conversion.
\<close>

definition failing_library :: "rat library" where
  "failing_library =
     \<lparr>float_of = (\<lambda>s. None), int_of = (\<lambda>s. None), strtobool = (\<lambda>s. None), strptime = (\<lambda>s. None)\<rparr>"

text \<open>
  The comparisons of integer timestamps, to evaluate \<^const>\<open>select_by_timestamp\<close> on
  tables whose timestamp column holds integers.
\<close>

fun int_ge :: "pyval \<Rightarrow> pyval \<Rightarrow> bool" where
  "int_ge (PInt a) (PInt b) = (b \<le> a)"
| "int_ge a b = False"

fun int_lt :: "pyval \<Rightarrow> pyval \<Rightarrow> bool" where
  "int_lt (PInt a) (PInt b) = (a < b)"
| "int_lt a b = False"

section \<open>Properties of slicing\<close>

lemma iloc_prefix: "0 \<le> k \<Longrightarrow> iloc None (Some k) xs = take (nat k) xs"
  by (auto simp: iloc_def clip_index_def Let_def min_def)

lemma iloc_suffix: "0 \<le> k \<Longrightarrow> iloc (Some k) None xs = drop (nat k) xs"
  by (auto simp: iloc_def clip_index_def Let_def min_def)

lemma iloc_suffix_neg:
  "s < 0 \<Longrightarrow> - int (length xs) \<le> s \<Longrightarrow> iloc (Some s) None xs = drop (length xs - nat (- s)) xs"
  by (auto simp: iloc_def clip_index_def Let_def max_def nat_diff_distrib' intro!: arg_cong2[where f=drop])

lemma iloc_range:
  "0 \<le> a \<Longrightarrow> 0 \<le> b \<Longrightarrow> iloc (Some a) (Some b) xs = take (nat b - nat a) (drop (nat a) xs)"
  by (auto simp: iloc_def clip_index_def Let_def min_def nat_diff_distrib')

section \<open>Fixed fraction zero\<close>

text \<open>
  Claim C10. On a non-empty group, \<^verbatim>\<open>fraction = 0.0\<close> with \<^verbatim>\<open>minimum_size = 0\<close> gives the
  size 0. With location \<^verbatim>\<open>last\<close> the start index is the length of the group, which is
  truthy and not below the length, so the empty-selection error is raised (its message
  shows the group name when that is truthy). With location \<^verbatim>\<open>first\<close> the start index is
  0 and the result is the empty table. The same holds for \<^verbatim>\<open>select_by_fixed_fraction\<close>
  without id columns.
\<close>

theorem fixed_fraction_zero_asymmetric:
  assumes "group_df \<noteq> []"
  shows "split_group_by_fixed_fraction group_df name 0 ''last'' 0
           = Inl (Empty_selection (if truthy_opt name then name else None))
       \<and> split_group_by_fixed_fraction group_df name 0 ''first'' 0 = Inr []
       \<and> select_by_fixed_fraction sort_keys group_df None 0 ''last'' 0 = Inl (Empty_selection None)
       \<and> select_by_fixed_fraction sort_keys group_df None 0 ''first'' 0 = Inr []"
  using assms
  by (simp add: select_by_fixed_fraction_def split_group_by_fixed_fraction_def
        split_group_by_index_def py_int_def iloc_def clip_index_def)

theorem fixed_fraction_zero_asymmetric_witness:
  "[[(''value'', PInt 4)], [(''value'', PInt 9)]] \<noteq> ([] :: table)
   \<and> split_group_by_fixed_fraction [[(''value'', PInt 4)], [(''value'', PInt 9)]] (Some (PStr ''a'')) 0 ''last'' 0
       = Inl (Empty_selection (Some (PStr ''a'')))
   \<and> split_group_by_fixed_fraction [[(''value'', PInt 4)], [(''value'', PInt 9)]] (Some (PStr ''a'')) 0 ''first'' 0
       = Inr []"
  using fixed_fraction_zero_asymmetric
          [of "[[(''value'', PInt 4)], [(''value'', PInt 9)]]" "Some (PStr ''a'')" "\<lambda>ks. ks"]
  by simp

section \<open>Selection by index\<close>

text \<open>
  The empty-selection error of \<^verbatim>\<open>_split_group_by_index\<close> is raised exactly for a truthy
  start index that is not below the length of the group, whatever the end index is; an
  end index beyond the length is clipped.
\<close>

lemma split_group_by_index_raises_iff:
  "(\<exists>n. split_group_by_index group_df name start_index end_index = Inl (Empty_selection n))
     = (truthy_int start_index \<and> (\<exists>s. start_index = Some s \<and> int (length group_df) \<le> s))"
  by (cases start_index) (auto simp: split_group_by_index_def)

lemma split_group_by_index_end_clipped:
  "0 < s \<Longrightarrow> s < int (length group_df) \<Longrightarrow> int (length group_df) \<le> e \<Longrightarrow>
   split_group_by_index group_df name (Some s) (Some e) = Inr (drop (nat s) group_df)"
  by (auto simp: split_group_by_index_def iloc_def clip_index_def Let_def min_def)

text \<open>
  A selection that starts at the length of a non-empty table without id columns raises the
  empty-selection error.
\<close>

lemma select_by_index_at_length:
  assumes "T \<noteq> []" and "no_id_columns id_columns"
  shows "select_by_index sort_keys T id_columns (Some (int (length T))) end_index
           = Inl (Empty_selection None)"
  using assms by (simp add: select_by_index_def split_group_by_index_def)

text \<open>
  Claim C3, as stated, fails at \<open>k = len(T)\<close>. On a table of three rows and \<open>k = 3\<close> the
  first selection returns the whole table, the second selection starts at the length of
  the table and raises the empty-selection error, so there is no concatenation.
\<close>

theorem select_by_index_concat_counterexample:
  "select_by_index id [[(''value'', PInt 1)], [(''value'', PInt 2)], [(''value'', PInt 3)]] None (Some 0) (Some 3)
     = Inr [[(''value'', PInt 1)], [(''value'', PInt 2)], [(''value'', PInt 3)]]
   \<and> select_by_index id [[(''value'', PInt 1)], [(''value'', PInt 2)], [(''value'', PInt 3)]] None (Some 3) None
     = Inl (Empty_selection None)
   \<and> concat_selected
      (select_by_index id [[(''value'', PInt 1)], [(''value'', PInt 2)], [(''value'', PInt 3)]] None (Some 0) (Some 3))
      (select_by_index id [[(''value'', PInt 1)], [(''value'', PInt 2)], [(''value'', PInt 3)]] None (Some 3) None)
     = Inl (Empty_selection None)"
  by (simp add: concat_selected_def select_by_index_def split_group_by_index_def iloc_def clip_index_def)

text \<open>
  Claim C3, amended. For a table \<open>T\<close> without id columns and every \<open>k\<close> strictly between
  0 and the length of \<open>T\<close>, both selections succeed and the rows of
  \<^verbatim>\<open>select_by_index(T, 0, k)\<close> followed by those of \<^verbatim>\<open>select_by_index(T, k, None)\<close> are
  the rows of \<open>T\<close>.
\<close>

theorem select_by_index_concat:
  assumes "0 < k" and "k < int (length T)" and "no_id_columns id_columns"
  shows "concat_selected (select_by_index sort_keys T id_columns (Some 0) (Some k))
                         (select_by_index sort_keys T id_columns (Some k) None) = Inr T"
  using assms
  by (simp add: concat_selected_def select_by_index_def split_group_by_index_def iloc_prefix iloc_suffix)

theorem select_by_index_concat_witness:
  "(0::int) < 2
   \<and> 2 < int (length [[(''value'', PInt 1)], [(''value'', PInt 2)], [(''value'', PInt 3)]])
   \<and> no_id_columns None
   \<and> concat_selected
        (select_by_index id [[(''value'', PInt 1)], [(''value'', PInt 2)], [(''value'', PInt 3)]] None (Some 0) (Some 2))
        (select_by_index id [[(''value'', PInt 1)], [(''value'', PInt 2)], [(''value'', PInt 3)]] None (Some 2) None)
      = Inr [[(''value'', PInt 1)], [(''value'', PInt 2)], [(''value'', PInt 3)]]"
  using select_by_index_concat
          [of 2 "[[(''value'', PInt 1)], [(''value'', PInt 2)], [(''value'', PInt 3)]]" None id]
  by simp

text \<open>
  Claim C4 at a group whose name is falsy. The table has the single id column \<^verbatim>\<open>id\<close>
  with the value 0 in both rows, so \<^verbatim>\<open>groupby\<close> names the one group 0. The start index 5
  is beyond the two rows and the empty-selection error is raised, but \<^verbatim>\<open>if name\<close> is
  false for the name 0 and the message carries no id. With the id value 1 the same call
  raises the error with the id in the message.
\<close>

theorem select_by_index_falsy_group_name:
  "select_by_index id [[(''id'', PInt 0), (''value'', PInt 7)], [(''id'', PInt 0), (''value'', PInt 8)]]
      (Some [''id'']) (Some 5) None = Inl (Empty_selection None)
   \<and> select_by_index id [[(''id'', PInt 1), (''value'', PInt 7)], [(''id'', PInt 1), (''value'', PInt 8)]]
      (Some [''id'']) (Some 5) None = Inl (Empty_selection (Some (PInt 1)))"
  by (simp add: select_by_index_def split_group_by_index_def groupby_def get_groupby_columns_def group_name_def)

section \<open>Joining lists without repeats\<close>



lemma join_list_repeat_inside_one_list:
  "join_list_without_repeat [[1], [2, 2 :: int]] = Some [1, 2, 2]"
  by (simp add: join_list_without_repeat_def Let_def)

section \<open>The three-way splitter\<close>

text \<open>
  The two calls of \<^verbatim>\<open>_split_group_by_index\<close> with a start index that is not negative, and
  the result of \<^verbatim>\<open>_split_group_train_test\<close> when the sizes are not negative, fit into the
  group and the offset does not exceed the train size.
\<close>

lemma iloc_all: "iloc None None xs = xs"
  by (simp add: iloc_def)

lemma split_index_nonneg:
  assumes "0 \<le> a" "0 \<le> b"
  shows "split_group_by_index T name (Some a) (Some b) =
     (if a \<noteq> 0 \<and> int (length T) \<le> a then Inl (Empty_selection (if truthy_opt name then name else None))
      else if a \<noteq> 0 \<and> b = 0 then Inr (drop (nat a) T)
      else Inr (row_range a b T))"
  using assms
  by (auto simp: split_group_by_index_def row_range_def iloc_prefix iloc_range iloc_suffix)

lemma split_index_to_end:
  assumes "0 \<le> a"
  shows "split_group_by_index T name (Some a) None =
     (if a \<noteq> 0 \<and> int (length T) \<le> a then Inl (Empty_selection (if truthy_opt name then name else None))
      else Inr (row_range a (int (length T)) T))"
  using assms
  by (auto simp: split_group_by_index_def row_range_def iloc_suffix iloc_all)

lemma split_group_train_test_sizes:
  assumes "l = int (length T)"
    and "ts = py_int (py_mul l train)" "es = py_int (py_mul l test)" "vs = l - ts - es"
    and "0 \<le> ts" "0 \<le> es" "ts + es \<le> l"
    and "0 \<le> off" "off \<le> ts"
  shows "split_group_train_test py_mul T name train test off =
     (if (ts - off \<noteq> 0 \<and> l \<le> ts - off) \<or> (ts + vs - off \<noteq> 0 \<and> l \<le> ts + vs - off)
      then Inl (Empty_selection (if truthy_opt name then name else None))
      else Inr (row_range 0 ts T, row_range (ts - off) (ts + vs) T, row_range (ts + vs - off) l T))"
proof -
  have pt: "py_int (py_mul (int (length T)) train) = ts" "py_int (py_mul (int (length T)) test) = es"
    using assms by simp_all
  have a: "0 \<le> ts - off" using assms by simp
  have b: "0 \<le> ts + vs" using assms by simp
  have c: "0 \<le> ts + vs - off" using assms by simp
  have d: "ts - off \<noteq> 0 \<Longrightarrow> ts + vs \<noteq> 0" using assms by auto
  show ?thesis
    unfolding split_group_train_test_def Let_def pt
    using split_index_nonneg[OF order_refl assms(5), of T name] split_index_nonneg[OF a b, of T name]
      split_index_to_end[OF c, of T name] d assms(1,4)
    by auto
qed

lemma three_parts:
  "a \<le> b \<Longrightarrow> take a xs @ take (b - a) (drop a xs) @ drop b xs = xs"
proof -
  assume "a \<le> b"
  then have "drop b xs = drop (b - a) (drop a xs)" by simp
  then show ?thesis by (simp only: append_take_drop_id)
qed

lemma hundred_rows:
  assumes "length T = 100" "py_int (py_mul 100 train) = 70" "py_int (py_mul 100 test) = 20"
  shows "split_group_train_test py_mul T None train test 0
           = Inr (row_range 0 70 T, row_range 70 80 T, row_range 80 100 T)"
proof -
  have "split_group_train_test py_mul T None train test 0 =
     (if (70 - 0 \<noteq> (0::int) \<and> (100::int) \<le> 70 - 0) \<or> (70 + 10 - 0 \<noteq> (0::int) \<and> (100::int) \<le> 70 + 10 - 0)
      then Inl (Empty_selection (if truthy_opt None then None else None))
      else Inr (row_range 0 70 T, row_range (70 - 0) (70 + 10) T, row_range (70 + 10 - 0) 100 T))"
    by (rule split_group_train_test_sizes[where l=100 and ts=70 and es=20 and vs=10 and py_mul=py_mul and train=train and test=test])
       (simp_all add: assms)
  then show ?thesis by simp
qed

lemma hundred_rows_partition:
  assumes "length T = 100"
  shows "row_range 0 70 T @ row_range 70 80 T @ row_range 80 100 T = T"
    and "length (row_range 0 70 T) + length (row_range 70 80 T) + length (row_range 80 100 T) = 100"
proof -
  have "drop 80 T = take 20 (drop 80 T)" using assms by simp
  then show "row_range 0 70 T @ row_range 70 80 T @ row_range 80 100 T = T"
    using three_parts[of 70 80 T] by (simp add: row_range_def)
  show "length (row_range 0 70 T) + length (row_range 70 80 T) + length (row_range 80 100 T) = 100"
    using assms by (simp add: row_range_def)
qed

text \<open>
  Claim C2, as stated, fails in two ways. On a group of three rows with
  \<^verbatim>\<open>train = 0.7\<close>, \<^verbatim>\<open>test = 0.2\<close> and offset 0 the sizes are 2, 0 and 1, the test part would
  start at the length of the group, and the empty-selection error is raised instead of
  three parts being returned. On a group of four rows with \<^verbatim>\<open>train = 0.5\<close>,
  \<^verbatim>\<open>test = 0.25\<close> and offset 3 the valid part starts at \<open>2 - 3 = -1\<close>, which the slice
  counts from the end: the valid part is empty, while the rows at the positions from
  \<open>-1\<close> up to 3 are the first three rows. (The products of these lengths and fractions are
  the same with and without rounding.)
\<close>

theorem train_test_split_single_group_counterexample:
  "train_test_split exact_times id [[(''value'', PInt 1)], [(''value'', PInt 2)], [(''value'', PInt 3)]] None (7/10) (2/10) 0
     = Inl (Empty_selection None)
   \<and> train_test_split exact_times id [[(''value'', PInt 1)], [(''value'', PInt 2)], [(''value'', PInt 3)], [(''value'', PInt 4)]]
        None (1/2) (1/4) 3
     = Inr ([[(''value'', PInt 1)], [(''value'', PInt 2)]], [],
            [[(''value'', PInt 1)], [(''value'', PInt 2)], [(''value'', PInt 3)], [(''value'', PInt 4)]])
   \<and> row_range (2 - 3) 3 [[(''value'', PInt 1)], [(''value'', PInt 2)], [(''value'', PInt 3)], [(''value'', PInt 4)]]
     = [[(''value'', PInt 1)], [(''value'', PInt 2)], [(''value'', PInt 3)]]"
proof -
  have f: "\<lfloor>(21::rat) / 10\<rfloor> = 2" "\<lfloor>(3::rat) / 5\<rfloor> = 0"
    by (simp_all add: floor_eq_iff)
  show ?thesis
    by (simp add: train_test_split_def split_group_train_test_def split_group_by_index_def py_int_def
        iloc_def clip_index_def row_range_def f Let_def exact_times_def)
qed

text \<open>
  Claim C2, amended. Take a single group of length \<open>l\<close> (no id columns), with
  \<open>train_size = int(l * train)\<close>, \<open>test_size = int(l * test)\<close> (the products as Python
  computes them; \<open>int\<close> is the floor of a product that is not negative) and
  \<open>valid_size = l - train_size - test_size\<close>, where the two sizes are not negative and
  \<open>train_size + test_size \<le> l\<close>, and an offset with \<open>0 \<le> offset \<le> train_size\<close>. If the valid
  or the test part would start at a non-zero position that is not below \<open>l\<close>,
  \<^verbatim>\<open>train_test_split\<close> raises the empty-selection error; otherwise it returns the train rows
  \<open>[0, train_size)\<close>, the valid rows \<open>[train_size - offset, train_size + valid_size)\<close> and the
  test rows \<open>[train_size + valid_size - offset, l)\<close>. In particular on 100 rows, with
  fractions for which \<open>int(100 * train) = 70\<close> and \<open>int(100 * test) = 20\<close> (as for 0.7 and
  0.2) and offset 0, it returns the rows \<open>[0,70)\<close>, \<open>[70,80)\<close> and \<open>[80,100)\<close>, which
  together are the table, with sizes that sum to 100.
\<close>

theorem train_test_split_single_group:
  assumes "no_id_columns id_columns"
    and "l = int (length T)"
    and "train_size = py_int (py_mul l train)"
    and "test_size = py_int (py_mul l test)"
    and "valid_size = l - train_size - test_size"
    and "0 \<le> train_size" and "0 \<le> test_size" and "train_size + test_size \<le> l"
    and "0 \<le> off" and "off \<le> train_size"
  shows "train_test_split py_mul sk T id_columns train test off =
           (if (train_size - off \<noteq> 0 \<and> l \<le> train_size - off)
               \<or> (train_size + valid_size - off \<noteq> 0 \<and> l \<le> train_size + valid_size - off)
            then Inl (Empty_selection None)
            else Inr (row_range 0 train_size T,
                      row_range (train_size - off) (train_size + valid_size) T,
                      row_range (train_size + valid_size - off) l T))
       \<and> (0 \<le> py_mul l train \<longrightarrow> train_size = \<lfloor>py_mul l train\<rfloor>)
       \<and> (0 \<le> py_mul l test \<longrightarrow> test_size = \<lfloor>py_mul l test\<rfloor>)
       \<and> (length T' = 100 \<and> py_int (py_mul 100 train') = 70 \<and> py_int (py_mul 100 test') = 20 \<longrightarrow>
            train_test_split py_mul sk T' id_columns train' test' 0
              = Inr (row_range 0 70 T', row_range 70 80 T', row_range 80 100 T')
            \<and> row_range 0 70 T' @ row_range 70 80 T' @ row_range 80 100 T' = T'
            \<and> length (row_range 0 70 T') + length (row_range 70 80 T') + length (row_range 80 100 T') = 100)"
proof (intro conjI impI)
  have "split_group_train_test py_mul T None train test off =
           (if (train_size - off \<noteq> 0 \<and> l \<le> train_size - off)
               \<or> (train_size + valid_size - off \<noteq> 0 \<and> l \<le> train_size + valid_size - off)
            then Inl (Empty_selection (if truthy_opt None then None else None))
            else Inr (row_range 0 train_size T,
                      row_range (train_size - off) (train_size + valid_size) T,
                      row_range (train_size + valid_size - off) l T))"
    by (rule split_group_train_test_sizes[where py_mul=py_mul and train=train and test=test, OF assms(2-10)])
  then show "train_test_split py_mul sk T id_columns train test off =
           (if (train_size - off \<noteq> 0 \<and> l \<le> train_size - off)
               \<or> (train_size + valid_size - off \<noteq> 0 \<and> l \<le> train_size + valid_size - off)
            then Inl (Empty_selection None)
            else Inr (row_range 0 train_size T,
                      row_range (train_size - off) (train_size + valid_size) T,
                      row_range (train_size + valid_size - off) l T))"
    using assms(1) by (simp add: train_test_split_def)
next
  assume "0 \<le> py_mul l train"
  then show "train_size = \<lfloor>py_mul l train\<rfloor>" using assms(3) by (simp add: py_int_def)
next
  assume "0 \<le> py_mul l test"
  then show "test_size = \<lfloor>py_mul l test\<rfloor>" using assms(4) by (simp add: py_int_def)
next
  assume h: "length T' = 100 \<and> py_int (py_mul 100 train') = 70 \<and> py_int (py_mul 100 test') = 20"
  then have len: "length T' = 100" by simp
  show "train_test_split py_mul sk T' id_columns train' test' 0
              = Inr (row_range 0 70 T', row_range 70 80 T', row_range 80 100 T')"
    using hundred_rows[of T' py_mul train' test'] h assms(1) by (simp add: train_test_split_def)
  show "row_range 0 70 T' @ row_range 70 80 T' @ row_range 80 100 T' = T'"
    by (rule hundred_rows_partition(1)[OF len])
  show "length (row_range 0 70 T') + length (row_range 70 80 T') + length (row_range 80 100 T') = 100"
    by (rule hundred_rows_partition(2)[OF len])
qed

theorem train_test_split_single_group_witness:
  "no_id_columns None
   \<and> (4::int) = int (length [[(''value'', PInt 1)], [(''value'', PInt 2)], [(''value'', PInt 3)], [(''value'', PInt 4)]])
   \<and> (2::int) = py_int (exact_times 4 (1/2)) \<and> (1::int) = py_int (exact_times 4 (1/4))
   \<and> (1::int) = 4 - 2 - 1 \<and> (0::int) \<le> 2 \<and> (0::int) \<le> 1 \<and> (2::int) + 1 \<le> 4 \<and> (0::int) \<le> 1 \<and> (1::int) \<le> 2
   \<and> train_test_split exact_times id [[(''value'', PInt 1)], [(''value'', PInt 2)], [(''value'', PInt 3)], [(''value'', PInt 4)]]
        None (1/2) (1/4) 1
      = Inr ([[(''value'', PInt 1)], [(''value'', PInt 2)]],
             [[(''value'', PInt 2)], [(''value'', PInt 3)]],
             [[(''value'', PInt 3)], [(''value'', PInt 4)]])
   \<and> (0::rat) \<le> exact_times 4 (1/2) \<and> (2::int) = \<lfloor>exact_times 4 (1/2)\<rfloor>
   \<and> length (replicate 100 [(''value'', PInt 0)]) = 100
   \<and> py_int (exact_times 100 (7/10)) = 70 \<and> py_int (exact_times 100 (2/10)) = 20
   \<and> train_test_split exact_times id (replicate 100 [(''value'', PInt 0)]) None (7/10) (2/10) 0
      = Inr (row_range 0 70 (replicate 100 [(''value'', PInt 0)]),
             row_range 70 80 (replicate 100 [(''value'', PInt 0)]),
             row_range 80 100 (replicate 100 [(''value'', PInt 0)]))"
proof -
  have a: "no_id_columns None" by simp
  have b: "(4::int) = int (length [[(''value'', PInt 1)], [(''value'', PInt 2)], [(''value'', PInt 3)], [(''value'', PInt 4)]])"
    by simp
  have c: "(2::int) = py_int (exact_times 4 (1/2))" "(1::int) = py_int (exact_times 4 (1/4))"
    by (simp_all add: exact_times_def py_int_def)
  have d: "(1::int) = 4 - 2 - 1" "(0::int) \<le> 2" "(0::int) \<le> 1" "(2::int) + 1 \<le> 4" "(1::int) \<le> 2"
    by simp_all
  have e: "(0::rat) \<le> exact_times 4 (1/2)" by (simp add: exact_times_def)
  have f: "length (replicate 100 [(''value'', PInt 0)]) = 100
    \<and> py_int (exact_times 100 (7/10)) = 70 \<and> py_int (exact_times 100 (2/10)) = 20"
    by (simp add: exact_times_def py_int_def)
  note main = train_test_split_single_group[where id_columns=None and train="1/2" and test="1/4" and l=4 and py_mul=exact_times
             and T="[[(''value'', PInt 1)], [(''value'', PInt 2)], [(''value'', PInt 3)], [(''value'', PInt 4)]]"
             and train_size=2 and test_size=1 and valid_size=1 and off=1 and sk=id
             and T'="replicate 100 [(''value'', PInt 0)]" and train'="7/10" and test'="2/10",
             OF a b c d(1,2,3,4,3,5)]
  have g: "train_test_split exact_times id [[(''value'', PInt 1)], [(''value'', PInt 2)], [(''value'', PInt 3)], [(''value'', PInt 4)]]
        None (1/2) (1/4) 1
      = Inr ([[(''value'', PInt 1)], [(''value'', PInt 2)]],
             [[(''value'', PInt 2)], [(''value'', PInt 3)]],
             [[(''value'', PInt 3)], [(''value'', PInt 4)]])"
    using main[THEN conjunct1] by (simp add: row_range_def)
  have h: "(2::int) = \<lfloor>exact_times 4 (1/2)\<rfloor>"
    using main[THEN conjunct2, THEN conjunct1] e by blast
  have i: "train_test_split exact_times id (replicate 100 [(''value'', PInt 0)]) None (7/10) (2/10) 0
      = Inr (row_range 0 70 (replicate 100 [(''value'', PInt 0)]),
             row_range 70 80 (replicate 100 [(''value'', PInt 0)]),
             row_range 80 100 (replicate 100 [(''value'', PInt 0)]))"
    using main[THEN conjunct2, THEN conjunct2, THEN conjunct2] f by blast
  show ?thesis
    using a b c d e f g h i by blast
qed


section \<open>Negative start indices\<close>

text \<open>
  A negative start index that does not reach before the first row passes the check of
  \<^verbatim>\<open>_split_group_by_index\<close> and is read by the slice from the end of the group.
\<close>

lemma iloc_neg_start:
  assumes "s < 0" "- int (length T) \<le> s"
  shows "iloc (Some s) stop T =
      take (nat ((case stop of None \<Rightarrow> int (length T) | Some j \<Rightarrow> clip_index (int (length T)) j)
                 - (int (length T) + s)))
           (drop (nat (int (length T) + s)) T)"
proof -
  have "clip_index (int (length T)) s = int (length T) + s"
    using assms by (simp add: clip_index_def)
  then show ?thesis
    by (simp add: iloc_def Let_def)
qed

lemma split_group_by_index_negative_start:
  assumes "s < 0" "- int (length T) \<le> s"
  shows "split_group_by_index T name (Some s) end_index =
      Inr (take (nat (end_position (int (length T)) end_index - (int (length T) + s)))
             (drop (nat (int (length T) + s)) T))"
proof -
  have ne: "\<not> int (length T) \<le> s" "s \<noteq> 0" using assms by auto
  show ?thesis
  proof (cases "truthy_int end_index")
    case True
    then obtain e where e: "end_index = Some e" "e \<noteq> 0" by (cases end_index) auto
    show ?thesis using ne e iloc_neg_start[OF assms, of "Some e"]
      by (simp add: split_group_by_index_def end_position_def)
  next
    case False
    then have "end_index = None \<or> end_index = Some 0" by (cases end_index) auto
    then show ?thesis using ne iloc_neg_start[OF assms, of None]
      by (auto simp: split_group_by_index_def end_position_def)
  qed
qed

lemma split_group_train_test_offset_beyond_train:
  assumes "l = int (length T)"
    and "ts = py_int (py_mul l train)" "es = py_int (py_mul l test)"
    and "0 \<le> ts" "0 \<le> es" "ts < off" "off \<le> ts + l"
  shows "split_group_train_test py_mul T name train test off =
     Inr (take (nat ts) T,
          take (nat (end_position l (Some (l - es)) - (l + (ts - off)))) (drop (nat (l + (ts - off))) T),
          iloc (Some (l - es - off)) None T)"
proof -
  have pt: "py_int (py_mul (int (length T)) train) = ts" "py_int (py_mul (int (length T)) test) = es"
    using assms by simp_all
  have tr: "split_group_by_index T name (Some 0) (Some ts) = Inr (take (nat ts) T)"
    using assms(4) by (simp add: split_group_by_index_def iloc_prefix)
  have s: "ts - off < 0" "- int (length T) \<le> ts - off" using assms by simp_all
  have va: "split_group_by_index T name (Some (ts - off)) (Some (l - es)) =
      Inr (take (nat (end_position l (Some (l - es)) - (l + (ts - off)))) (drop (nat (l + (ts - off))) T))"
    using split_group_by_index_negative_start[OF s, of name "Some (l - es)"] assms(1) by simp
  have lt: "l - es - off < l" using assms(4,5,6) by simp
  have te: "split_group_by_index T name (Some (l - es - off)) None = Inr (iloc (Some (l - es - off)) None T)"
    using lt assms(1) by (auto simp: split_group_by_index_def iloc_def clip_index_def)
  have e1: "ts + (l - ts - es) = l - es" by simp
  show ?thesis
    unfolding split_group_train_test_def Let_def pt
    using tr va te assms(1) by (simp add: e1)
qed

text \<open>
  Claim C9. For a table \<open>T\<close> of length \<open>l\<close> without id columns and a start index \<open>s\<close> with
  \<open>-l \<le> s < 0\<close>, \<^verbatim>\<open>select_by_index\<close> raises no error and returns the rows from position
  \<open>l + s\<close> up to the end position given by \<^verbatim>\<open>end_index\<close>; without an end index these are
  the last \<open>|s|\<close> rows. The path is taken by \<^verbatim>\<open>train_test_split\<close>: when the sizes are not
  negative and the offset exceeds the train size (by no more than the length), the call
  for the valid part has the negative start index \<open>train_size - offset\<close>, and the valid
  part returned starts at position \<open>l + train_size - offset\<close>.
\<close>

theorem negative_start_index_counts_from_end:
  "(s < 0 \<and> - int (length T) \<le> s \<longrightarrow>
      select_by_index sk T None (Some s) end_index
        = Inr (take (nat (end_position (int (length T)) end_index - (int (length T) + s)))
                 (drop (nat (int (length T) + s)) T))
      \<and> select_by_index sk T None (Some s) None = Inr (drop (length T - nat (- s)) T))
   \<and> (l = int (length G) \<and> train_size = py_int (py_mul l train) \<and> test_size = py_int (py_mul l test)
        \<and> 0 \<le> train_size \<and> 0 \<le> test_size \<and> train_size < off \<and> off \<le> train_size + l \<longrightarrow>
      split_group_by_index G None (Some (train_size - off)) (Some (l - test_size))
        = Inr (take (nat (end_position l (Some (l - test_size)) - (l + (train_size - off))))
                 (drop (nat (l + (train_size - off))) G))
      \<and> train_test_split py_mul sk G None train test off
        = Inr (take (nat train_size) G,
               take (nat (end_position l (Some (l - test_size)) - (l + (train_size - off))))
                 (drop (nat (l + (train_size - off))) G),
               iloc (Some (l - test_size - off)) None G))"
proof (intro conjI impI)
  assume a: "s < 0 \<and> - int (length T) \<le> s"
  then have a1: "s < 0" and a2: "- int (length T) \<le> s" by simp_all
  show "select_by_index sk T None (Some s) end_index
        = Inr (take (nat (end_position (int (length T)) end_index - (int (length T) + s)))
                 (drop (nat (int (length T) + s)) T))"
    using split_group_by_index_negative_start[OF a1 a2, of None end_index] a1
    by (simp add: select_by_index_def)
  show "select_by_index sk T None (Some s) None = Inr (drop (length T - nat (- s)) T)"
    using a1 a2 by (auto simp: select_by_index_def split_group_by_index_def iloc_suffix_neg)
next
  assume b: "l = int (length G) \<and> train_size = py_int (py_mul l train) \<and> test_size = py_int (py_mul l test)
        \<and> 0 \<le> train_size \<and> 0 \<le> test_size \<and> train_size < off \<and> off \<le> train_size + l"
  from b have b1: "l = int (length G)" by blast
  from b have b2: "train_size = py_int (py_mul l train)" by blast
  from b have b3: "test_size = py_int (py_mul l test)" by blast
  from b have b4: "0 \<le> train_size" by blast
  from b have b5: "0 \<le> test_size" by blast
  from b have b6: "train_size < off" by blast
  from b have b7: "off \<le> train_size + l" by blast
  have s: "train_size - off < 0" "- int (length G) \<le> train_size - off"
    using b1 b6 b7 by linarith+
  show "split_group_by_index G None (Some (train_size - off)) (Some (l - test_size))
        = Inr (take (nat (end_position l (Some (l - test_size)) - (l + (train_size - off))))
                 (drop (nat (l + (train_size - off))) G))"
    using split_group_by_index_negative_start[OF s, of None "Some (l - test_size)"]
    by (simp only: b1)
  show "train_test_split py_mul sk G None train test off
        = Inr (take (nat train_size) G,
               take (nat (end_position l (Some (l - test_size)) - (l + (train_size - off))))
                 (drop (nat (l + (train_size - off))) G),
               iloc (Some (l - test_size - off)) None G)"
    using split_group_train_test_offset_beyond_train[where py_mul=py_mul and train=train and test=test
            and l=l and T=G and ts=train_size and es=test_size and off=off and name=None,
            OF b1 b2 b3 b4 b5 b6 b7]
    by (simp add: train_test_split_def)
qed

theorem negative_start_index_counts_from_end_witness:
  "(- 1 < (0::int) \<and> - int (length [[(''value'', PInt 1)], [(''value'', PInt 2)], [(''value'', PInt 3)]]) \<le> - 1
    \<and> select_by_index id [[(''value'', PInt 1)], [(''value'', PInt 2)], [(''value'', PInt 3)]] None (Some (- 1)) None
        = Inr [[(''value'', PInt 3)]])
   \<and> ((4::int) = int (length [[(''value'', PInt 1)], [(''value'', PInt 2)], [(''value'', PInt 3)], [(''value'', PInt 4)]])
       \<and> (2::int) = py_int (exact_times 4 (1/2)) \<and> (1::int) = py_int (exact_times 4 (1/4))
       \<and> (0::int) \<le> 2 \<and> (0::int) \<le> 1 \<and> (2::int) < 3 \<and> (3::int) \<le> 2 + 4
       \<and> train_test_split exact_times id [[(''value'', PInt 1)], [(''value'', PInt 2)], [(''value'', PInt 3)], [(''value'', PInt 4)]]
            None (1/2) (1/4) 3
          = Inr ([[(''value'', PInt 1)], [(''value'', PInt 2)]], [],
                 [[(''value'', PInt 1)], [(''value'', PInt 2)], [(''value'', PInt 3)], [(''value'', PInt 4)]]))"
  using negative_start_index_counts_from_end[where s="- 1" and T="[[(''value'', PInt 1)], [(''value'', PInt 2)], [(''value'', PInt 3)]]"
             and sk=id and end_index=None and train="1/2" and test="1/4" and l=4 and py_mul=exact_times
             and G="[[(''value'', PInt 1)], [(''value'', PInt 2)], [(''value'', PInt 3)], [(''value'', PInt 4)]]"
             and train_size=2 and test_size=1 and off=3]
  by (simp add: end_position_def clip_index_def iloc_def exact_times_def py_int_def)


section \<open>The legacy format reader\<close>

text \<open>
  The loop over the lines composes over a split of the file. A data row read before the
  \<^verbatim>\<open>@data\<close> tag, and a data row whose values are all \<^verbatim>\<open>?\<close>, end the loop with their
  errors; lines that are not data rows never open the data section.
\<close>

lemma process_lines_append:
  "process_lines lib rep st (xs @ ys) =
     (case process_lines lib rep st xs of Inl e \<Rightarrow> Inl e | Inr st' \<Rightarrow> process_lines lib rep st' ys)"
  by (induction xs arbitrary: st) (auto split: sum.splits)

lemma data_row_without_data_tag:
  assumes "is_data_row raw" "col_names st \<noteq> []" "\<not> found_data_tag st"
  shows "process_line lib rep st raw = Inl Missing_data_tag"
  using assms by (simp add: is_data_row_def process_line_def read_series_def Let_def)

lemma split_on_not_empty: "split_on sep s \<noteq> []"
  by (induction s) (auto split: list.splits)

lemma to_numeric_series_all_missing:
  "list_all (\<lambda>v. v = ''?'') vals \<Longrightarrow>
   to_numeric_series lib rep vals = Inr (replicate (length vals) (Replaced rep))"
  by (induction vals) auto

lemma count_list_replicate: "count_list (replicate n x) x = n"
  by (induction n) auto

lemma data_row_all_missing:
  assumes "is_data_row raw" "col_names st \<noteq> []" "found_data_tag st"
    and "length (split_on CHR '':'' (strip raw)) = length (col_names st) + 1"
    and "list_all (\<lambda>v. v = ''?'') (split_on CHR '','' (last (split_on CHR '':'' (strip raw))))"
  shows "process_line lib rep st raw = Inl All_values_missing"
proof -
  let ?info = "split_on CHR '':'' (strip raw)"
  have l: "?info ! length (col_names st) = last ?info"
    using split_on_not_empty[of "CHR '':''" "strip raw"] assms(4) by (simp add: last_conv_nth)
  have n: "to_numeric_series lib rep (split_on CHR '','' (last ?info))
             = Inr (replicate (length (split_on CHR '','' (last ?info))) (Replaced rep))"
    by (rule to_numeric_series_all_missing[OF assms(5)])
  show ?thesis
    using assms(1-4) split_on_not_empty[of "CHR '',''" "last ?info"]
    by (simp add: is_data_row_def process_line_def read_series_def Let_def l n count_list_replicate)
qed

lemma read_meta_data_keeps:
  "read_meta_data lib st line = Inr st' \<Longrightarrow> found_data_section st' = found_data_section st"
  by (auto simp: read_meta_data_def Let_def split: if_splits option.splits)

lemma process_line_no_series_yet:
  assumes "\<not> is_data_row raw" "no_series_yet st" "process_line lib rep st raw = Inr st'"
  shows "no_series_yet st'"
proof (cases "strip raw = []")
  case True
  then show ?thesis using assms by (simp add: process_line_def)
next
  case False
  show ?thesis
  proof (cases "startswith ''@'' (strip raw)")
    case True
    then obtain st1 where st1: "read_meta_data lib st (strip raw) = Inr st1"
        and st': "st' = st1\<lparr>line_count := line_count st1 + 1\<rparr>"
      using assms(3) False by (auto simp: process_line_def Let_def split: sum.splits)
    show ?thesis using read_meta_data_keeps[OF st1] assms(2) st'
      by (simp add: no_series_yet_def)
  next
    case no_at: False
    then have "startswith ''#'' (strip raw)" using assms(1) False by (simp add: is_data_row_def)
    then show ?thesis using assms(2,3) False no_at
      by (auto simp: process_line_def Let_def no_series_yet_def)
  qed
qed

lemma process_lines_no_series_yet:
  "list_all (\<lambda>raw. \<not> is_data_row raw) file_lines \<Longrightarrow> no_series_yet st \<Longrightarrow>
   process_lines lib rep st file_lines = Inr st' \<Longrightarrow> no_series_yet st'"
proof (induction file_lines arbitrary: st)
  case Nil
  then show ?case by simp
next
  case (Cons raw file_lines)
  then obtain st1 where st1: "process_line lib rep st raw = Inr st1"
      and rest: "process_lines lib rep st1 file_lines = Inr st'"
    by (auto split: sum.splits)
  have "no_series_yet st1"
    using process_line_no_series_yet[OF _ Cons.prems(2) st1] Cons.prems(1) by simp
  then show ?case using Cons.IH[OF _ _ rest] Cons.prems(1) by simp
qed

text \<open>
  Claim C7. (1) When the lines before a data row are read without error, declare at least
  one attribute and contain no \<^verbatim>\<open>@data\<close> tag, the reader fails at that data row with the
  error \<^verbatim>\<open>Missing @data tag.\<close> (2) When a whole file is read without error, declares at
  least one attribute, has the \<^verbatim>\<open>@data\<close> tag and no data row, the reader fails with the
  error of missing series information. (3) When the lines before a data row are read
  without error, with attributes and the \<^verbatim>\<open>@data\<close> tag, and the row has one field per
  attribute plus a value field that consists of \<^verbatim>\<open>?\<close> tokens only, the reader fails at
  that row with the error that all series values are missing. Each holds for every
  conversion library, replacement value and value column name, and in (1) and (3) whatever
  lines follow the row.
\<close>

theorem convert_tsf_to_dataframe_errors:
  "(process_lines lib rep tsf_init header = Inr st \<and> col_names st \<noteq> [] \<and> \<not> found_data_tag st
      \<and> is_data_row raw \<longrightarrow>
    convert_tsf_to_dataframe lib (header @ raw # rest) rep value_column_name = Inl Missing_data_tag)
   \<and> (process_lines lib rep tsf_init file_lines = Inr st' \<and> col_names st' \<noteq> [] \<and> found_data_tag st'
      \<and> list_all (\<lambda>raw. \<not> is_data_row raw) file_lines \<longrightarrow>
    convert_tsf_to_dataframe lib file_lines rep value_column_name = Inl Missing_series_information)
   \<and> (process_lines lib rep tsf_init header' = Inr st'' \<and> col_names st'' \<noteq> [] \<and> found_data_tag st''
      \<and> is_data_row raw'
      \<and> length (split_on CHR '':'' (strip raw')) = length (col_names st'') + 1
      \<and> list_all (\<lambda>v. v = ''?'') (split_on CHR '','' (last (split_on CHR '':'' (strip raw')))) \<longrightarrow>
    convert_tsf_to_dataframe lib (header' @ raw' # rest') rep value_column_name = Inl All_values_missing)"
proof (intro conjI impI)
  assume a: "process_lines lib rep tsf_init header = Inr st \<and> col_names st \<noteq> [] \<and> \<not> found_data_tag st
      \<and> is_data_row raw"
  then have "process_line lib rep st raw = Inl Missing_data_tag"
    using data_row_without_data_tag[of raw st lib rep] by blast
  then show "convert_tsf_to_dataframe lib (header @ raw # rest) rep value_column_name = Inl Missing_data_tag"
    using a by (simp add: convert_tsf_to_dataframe_def process_lines_append)
next
  assume b: "process_lines lib rep tsf_init file_lines = Inr st' \<and> col_names st' \<noteq> [] \<and> found_data_tag st'
      \<and> list_all (\<lambda>raw. \<not> is_data_row raw) file_lines"
  have "no_series_yet (tsf_init :: 'a tsf_state)" by (simp add: no_series_yet_def tsf_init_def)
  then have "no_series_yet st'"
    using process_lines_no_series_yet[of file_lines tsf_init lib rep st'] b by blast
  then show "convert_tsf_to_dataframe lib file_lines rep value_column_name = Inl Missing_series_information"
    using b by (simp add: convert_tsf_to_dataframe_def no_series_yet_def)
next
  assume c: "process_lines lib rep tsf_init header' = Inr st'' \<and> col_names st'' \<noteq> [] \<and> found_data_tag st''
      \<and> is_data_row raw'
      \<and> length (split_on CHR '':'' (strip raw')) = length (col_names st'') + 1
      \<and> list_all (\<lambda>v. v = ''?'') (split_on CHR '','' (last (split_on CHR '':'' (strip raw'))))"
  then have "process_line lib rep st'' raw' = Inl All_values_missing"
    using data_row_all_missing[of raw' st'' lib rep] by blast
  then show "convert_tsf_to_dataframe lib (header' @ raw' # rest') rep value_column_name = Inl All_values_missing"
    using c by (simp add: convert_tsf_to_dataframe_def process_lines_append)
qed


theorem convert_tsf_to_dataframe_errors_witness:
  "(process_lines failing_library ''NaN'' tsf_init [''@attribute series_name string''] = Inr (\<lparr>col_names = [''series_name''], col_types = [''string''], all_data = [], all_series = [], line_count = 1, frequency = None, forecast_horizon = None, contain_missing_values = None, contain_equal_length = None, found_data_tag = False, found_data_section = False, started_reading_data_section = False\<rparr>)
      \<and> col_names (\<lparr>col_names = [''series_name''], col_types = [''string''], all_data = [], all_series = [], line_count = 1, frequency = None, forecast_horizon = None, contain_missing_values = None, contain_equal_length = None, found_data_tag = False, found_data_section = False, started_reading_data_section = False\<rparr>) \<noteq> [] \<and> \<not> found_data_tag (\<lparr>col_names = [''series_name''], col_types = [''string''], all_data = [], all_series = [], line_count = 1, frequency = None, forecast_horizon = None, contain_missing_values = None, contain_equal_length = None, found_data_tag = False, found_data_section = False, started_reading_data_section = False\<rparr>) \<and> is_data_row ''T1:1,2'' )
   \<and> convert_tsf_to_dataframe failing_library ([''@attribute series_name string''] @ ''T1:1,2'' # []) ''NaN'' ''series_value''
        = Inl Missing_data_tag
   \<and> (process_lines failing_library ''NaN'' tsf_init [''@attribute series_name string'', ''@data''] = Inr (\<lparr>col_names = [''series_name''], col_types = [''string''], all_data = [], all_series = [], line_count = 2, frequency = None, forecast_horizon = None, contain_missing_values = None, contain_equal_length = None, found_data_tag = True, found_data_section = False, started_reading_data_section = False\<rparr>)
      \<and> col_names (\<lparr>col_names = [''series_name''], col_types = [''string''], all_data = [], all_series = [], line_count = 2, frequency = None, forecast_horizon = None, contain_missing_values = None, contain_equal_length = None, found_data_tag = True, found_data_section = False, started_reading_data_section = False\<rparr>) \<noteq> [] \<and> found_data_tag (\<lparr>col_names = [''series_name''], col_types = [''string''], all_data = [], all_series = [], line_count = 2, frequency = None, forecast_horizon = None, contain_missing_values = None, contain_equal_length = None, found_data_tag = True, found_data_section = False, started_reading_data_section = False\<rparr>)
      \<and> list_all (\<lambda>raw. \<not> is_data_row raw) [''@attribute series_name string'', ''@data''] )
   \<and> convert_tsf_to_dataframe failing_library [''@attribute series_name string'', ''@data''] ''NaN'' ''series_value''
        = Inl Missing_series_information
   \<and> (process_lines failing_library ''NaN'' tsf_init [''@attribute series_name string'', ''@data''] = Inr (\<lparr>col_names = [''series_name''], col_types = [''string''], all_data = [], all_series = [], line_count = 2, frequency = None, forecast_horizon = None, contain_missing_values = None, contain_equal_length = None, found_data_tag = True, found_data_section = False, started_reading_data_section = False\<rparr>)
      \<and> col_names (\<lparr>col_names = [''series_name''], col_types = [''string''], all_data = [], all_series = [], line_count = 2, frequency = None, forecast_horizon = None, contain_missing_values = None, contain_equal_length = None, found_data_tag = True, found_data_section = False, started_reading_data_section = False\<rparr>) \<noteq> [] \<and> found_data_tag (\<lparr>col_names = [''series_name''], col_types = [''string''], all_data = [], all_series = [], line_count = 2, frequency = None, forecast_horizon = None, contain_missing_values = None, contain_equal_length = None, found_data_tag = True, found_data_section = False, started_reading_data_section = False\<rparr>) \<and> is_data_row ''T1:?,?''
      \<and> length (split_on CHR '':'' (strip ''T1:?,?'')) = length (col_names (\<lparr>col_names = [''series_name''], col_types = [''string''], all_data = [], all_series = [], line_count = 2, frequency = None, forecast_horizon = None, contain_missing_values = None, contain_equal_length = None, found_data_tag = True, found_data_section = False, started_reading_data_section = False\<rparr>)) + 1
      \<and> list_all (\<lambda>v. v = ''?'') (split_on CHR '','' (last (split_on CHR '':'' (strip ''T1:?,?'')))) )
   \<and> convert_tsf_to_dataframe failing_library ([''@attribute series_name string'', ''@data''] @ ''T1:?,?'' # []) ''NaN'' ''series_value''
        = Inl All_values_missing"
proof -
  have h1: "process_lines failing_library ''NaN'' tsf_init [''@attribute series_name string''] = Inr (\<lparr>col_names = [''series_name''], col_types = [''string''], all_data = [], all_series = [], line_count = 1, frequency = None, forecast_horizon = None, contain_missing_values = None, contain_equal_length = None, found_data_tag = False, found_data_section = False, started_reading_data_section = False\<rparr>)
      \<and> col_names (\<lparr>col_names = [''series_name''], col_types = [''string''], all_data = [], all_series = [], line_count = 1, frequency = None, forecast_horizon = None, contain_missing_values = None, contain_equal_length = None, found_data_tag = False, found_data_section = False, started_reading_data_section = False\<rparr>) \<noteq> [] \<and> \<not> found_data_tag (\<lparr>col_names = [''series_name''], col_types = [''string''], all_data = [], all_series = [], line_count = 1, frequency = None, forecast_horizon = None, contain_missing_values = None, contain_equal_length = None, found_data_tag = False, found_data_section = False, started_reading_data_section = False\<rparr>) \<and> is_data_row ''T1:1,2'' "
    by (simp add: process_line_def read_meta_data_def read_series_def strip_def is_space_def startswith_def tsf_init_def Let_def is_data_row_def failing_library_def)
  have h2: "process_lines failing_library ''NaN'' tsf_init [''@attribute series_name string'', ''@data''] = Inr (\<lparr>col_names = [''series_name''], col_types = [''string''], all_data = [], all_series = [], line_count = 2, frequency = None, forecast_horizon = None, contain_missing_values = None, contain_equal_length = None, found_data_tag = True, found_data_section = False, started_reading_data_section = False\<rparr>)
      \<and> col_names (\<lparr>col_names = [''series_name''], col_types = [''string''], all_data = [], all_series = [], line_count = 2, frequency = None, forecast_horizon = None, contain_missing_values = None, contain_equal_length = None, found_data_tag = True, found_data_section = False, started_reading_data_section = False\<rparr>) \<noteq> [] \<and> found_data_tag (\<lparr>col_names = [''series_name''], col_types = [''string''], all_data = [], all_series = [], line_count = 2, frequency = None, forecast_horizon = None, contain_missing_values = None, contain_equal_length = None, found_data_tag = True, found_data_section = False, started_reading_data_section = False\<rparr>)
      \<and> list_all (\<lambda>raw. \<not> is_data_row raw) [''@attribute series_name string'', ''@data''] "
    by (simp add: process_line_def read_meta_data_def read_series_def strip_def is_space_def startswith_def tsf_init_def Let_def is_data_row_def failing_library_def)
  have h3: "process_lines failing_library ''NaN'' tsf_init [''@attribute series_name string'', ''@data''] = Inr (\<lparr>col_names = [''series_name''], col_types = [''string''], all_data = [], all_series = [], line_count = 2, frequency = None, forecast_horizon = None, contain_missing_values = None, contain_equal_length = None, found_data_tag = True, found_data_section = False, started_reading_data_section = False\<rparr>)
      \<and> col_names (\<lparr>col_names = [''series_name''], col_types = [''string''], all_data = [], all_series = [], line_count = 2, frequency = None, forecast_horizon = None, contain_missing_values = None, contain_equal_length = None, found_data_tag = True, found_data_section = False, started_reading_data_section = False\<rparr>) \<noteq> [] \<and> found_data_tag (\<lparr>col_names = [''series_name''], col_types = [''string''], all_data = [], all_series = [], line_count = 2, frequency = None, forecast_horizon = None, contain_missing_values = None, contain_equal_length = None, found_data_tag = True, found_data_section = False, started_reading_data_section = False\<rparr>) \<and> is_data_row ''T1:?,?''
      \<and> length (split_on CHR '':'' (strip ''T1:?,?'')) = length (col_names (\<lparr>col_names = [''series_name''], col_types = [''string''], all_data = [], all_series = [], line_count = 2, frequency = None, forecast_horizon = None, contain_missing_values = None, contain_equal_length = None, found_data_tag = True, found_data_section = False, started_reading_data_section = False\<rparr>)) + 1
      \<and> list_all (\<lambda>v. v = ''?'') (split_on CHR '','' (last (split_on CHR '':'' (strip ''T1:?,?'')))) "
    by (simp add: process_line_def read_meta_data_def read_series_def strip_def is_space_def startswith_def tsf_init_def Let_def is_data_row_def failing_library_def)
  note main = convert_tsf_to_dataframe_errors[where lib=failing_library and rep="''NaN''" and value_column_name="''series_value''"
      and header="[''@attribute series_name string'']" and st="\<lparr>col_names = [''series_name''], col_types = [''string''], all_data = [], all_series = [], line_count = 1, frequency = None, forecast_horizon = None, contain_missing_values = None, contain_equal_length = None, found_data_tag = False, found_data_section = False, started_reading_data_section = False\<rparr>" and raw="''T1:1,2''" and rest="[]"
      and file_lines="[''@attribute series_name string'', ''@data'']" and st'="\<lparr>col_names = [''series_name''], col_types = [''string''], all_data = [], all_series = [], line_count = 2, frequency = None, forecast_horizon = None, contain_missing_values = None, contain_equal_length = None, found_data_tag = True, found_data_section = False, started_reading_data_section = False\<rparr>"
      and header'="[''@attribute series_name string'', ''@data'']" and st''="\<lparr>col_names = [''series_name''], col_types = [''string''], all_data = [], all_series = [], line_count = 2, frequency = None, forecast_horizon = None, contain_missing_values = None, contain_equal_length = None, found_data_tag = True, found_data_section = False, started_reading_data_section = False\<rparr>"
      and raw'="''T1:?,?''" and rest'="[]"]
  have c1: "convert_tsf_to_dataframe failing_library ([''@attribute series_name string''] @ ''T1:1,2'' # []) ''NaN'' ''series_value''
        = Inl Missing_data_tag"
    using main[THEN conjunct1] h1 by blast
  have c2: "convert_tsf_to_dataframe failing_library [''@attribute series_name string'', ''@data''] ''NaN'' ''series_value''
        = Inl Missing_series_information"
    using main[THEN conjunct2, THEN conjunct1] h2 by blast
  have c3: "convert_tsf_to_dataframe failing_library ([''@attribute series_name string'', ''@data''] @ ''T1:?,?'' # []) ''NaN'' ''series_value''
        = Inl All_values_missing"
    using main[THEN conjunct2, THEN conjunct2] h3 by blast
  show ?thesis using h1 h2 h3 c1 c2 c3 by blast
qed


section \<open>Selection by timestamp\<close>

text \<open>
  With the timestamp column present and bounds that are truthy, \<^verbatim>\<open>select_by_timestamp\<close>
  returns the rows whose timestamp is at or after the start and before the end, each bound
  applying when it is given; with both bounds \<^verbatim>\<open>None\<close> it raises its error.
\<close>

lemma boolean_mask_filter:
  "get_column c df = Inr ts \<Longrightarrow>
   boolean_mask df (map p ts) = filter (\<lambda>r. case map_of r c of None \<Rightarrow> False | Some t \<Rightarrow> p t) df"
proof (induction df arbitrary: ts)
  case Nil
  then show ?case by (simp add: boolean_mask_def)
next
  case (Cons r df)
  then obtain t ts' where t: "map_of r c = Some t" and ts': "get_column c df = Inr ts'" and ts: "ts = t # ts'"
    by (auto split: option.splits sum.splits)
  have "boolean_mask df (map p ts') = filter (\<lambda>r. case map_of r c of None \<Rightarrow> False | Some t \<Rightarrow> p t) df"
    by (rule Cons.IH[OF ts'])
  then show ?case using t ts by (simp add: boolean_mask_def)
qed

lemma select_by_timestamp_truthy_bounds:
  assumes "get_column c df = Inr ts" "truthy s" "truthy e"
  shows "select_by_timestamp ge lt df c (Some s) (Some e)
           = Inr (filter (\<lambda>r. case map_of r c of None \<Rightarrow> False | Some t \<Rightarrow> ge t s \<and> lt t e) df)"
    and "select_by_timestamp ge lt df c (Some s) None
           = Inr (filter (\<lambda>r. case map_of r c of None \<Rightarrow> False | Some t \<Rightarrow> ge t s) df)"
    and "select_by_timestamp ge lt df c None (Some e)
           = Inr (filter (\<lambda>r. case map_of r c of None \<Rightarrow> False | Some t \<Rightarrow> lt t e) df)"
  using assms boolean_mask_filter[OF assms(1)]
  by (simp_all add: select_by_timestamp_def)

lemma select_by_timestamp_both_omitted:
  "select_by_timestamp ge lt df c None None = Inl At_least_one_timestamp"
  by (simp add: select_by_timestamp_def)

text \<open>
  Claim C6 at a bound that is given and falsy. The table has the integer timestamps 0, 1
  and 2. With \<^verbatim>\<open>start_timestamp = 0\<close> and no end, \<^verbatim>\<open>not start_timestamp\<close> holds as it does
  for \<^verbatim>\<open>None\<close>, and the error that neither bound is specified is raised, although the
  start is given and every row is at or after it. With \<^verbatim>\<open>start_timestamp = 1\<close> the same
  call returns the rows at or after 1. The empty string as start behaves as 0 does.
\<close>

theorem select_by_timestamp_falsy_bound:
  "select_by_timestamp int_ge int_lt
      [[(''timestamp'', PInt 0), (''value'', PInt 7)], [(''timestamp'', PInt 1), (''value'', PInt 8)],
       [(''timestamp'', PInt 2), (''value'', PInt 9)]]
      ''timestamp'' (Some (PInt 0)) None
     = Inl At_least_one_timestamp
   \<and> select_by_timestamp int_ge int_lt
      [[(''timestamp'', PInt 0), (''value'', PInt 7)], [(''timestamp'', PInt 1), (''value'', PInt 8)],
       [(''timestamp'', PInt 2), (''value'', PInt 9)]]
      ''timestamp'' (Some (PInt 1)) None
     = Inr [[(''timestamp'', PInt 1), (''value'', PInt 8)], [(''timestamp'', PInt 2), (''value'', PInt 9)]]
   \<and> select_by_timestamp int_ge int_lt
      [[(''timestamp'', PInt 0), (''value'', PInt 7)], [(''timestamp'', PInt 1), (''value'', PInt 8)],
       [(''timestamp'', PInt 2), (''value'', PInt 9)]]
      ''timestamp'' (Some (PStr [])) None
     = Inl At_least_one_timestamp"
  by (simp add: select_by_timestamp_def boolean_mask_def)


section \<open>The split-policy resolver\<close>

text \<open>
  The entry of one split whose configuration value is a list of at least two boundaries,
  and the offset for each of the three splits.
\<close>

lemma split_entry_bounds:
  assumes "map_of cfg grp = Some (Bounds (b0 # b1 # more_bounds))"
  shows "split_entry py_sub cfg cl grp =
     Inr (if (b0 < 1 \<and> b0 \<noteq> 0) \<or> b1 < 1
          then ([(''start_fraction'', b0), (''end_fraction'', b1),
                 (''start_offset'', of_int (context_offset cl grp))], Select_by_relative_fraction)
          else ([(''start_index'', py_sub b0 (context_offset cl grp)), (''end_index'', b1)],
                Select_by_index))"
  using assms by (simp add: split_entry_def config_item_def)

lemma context_offset_cases:
  "context_offset cl ''train'' = 0"
  "context_offset cl ''valid'' = (case cl of None \<Rightarrow> 0 | Some c \<Rightarrow> c)"
  "context_offset cl ''test'' = (case cl of None \<Rightarrow> 0 | Some c \<Rightarrow> c)"
  by (simp_all add: context_offset_def split: option.splits)

text \<open>
  Claim C1, as stated, fails for a split whose first boundary is 0 and whose second
  boundary is not below 1. In the configuration with train \<^verbatim>\<open>[0, 100]\<close>, valid
  \<^verbatim>\<open>[100, 150]\<close>, test \<^verbatim>\<open>[150, 200]\<close> and context length 5 the first boundary of train
  equals 0, yet train resolves to index-based parameters, as valid and test do: the test
  \<^verbatim>\<open>c[0] != 0\<close> of the code keeps a first boundary 0 out of the fraction mode.
\<close>

theorem get_split_params_three_way_counterexample:
  "get_split_params exact_minus
      [(''train'', Bounds [0, 100]), (''valid'', Bounds [100, 150]), (''test'', Bounds [150, 200])] (Some 5)
    = Inr (Three_way
             [(''train'', [(''start_index'', 0), (''end_index'', 100)]),
              (''test'', [(''start_index'', 145), (''end_index'', 200)]),
              (''valid'', [(''start_index'', 95), (''end_index'', 150)])]
             [(''train'', Select_by_index), (''test'', Select_by_index), (''valid'', Select_by_index)])"
  by (simp add: get_split_params_def split_entry_def config_item_def context_offset_def exact_minus_def)


text \<open>
  Claim C1, amended. For every configuration with the key \<^verbatim>\<open>valid\<close> in which train, valid
  and test are lists of at least two boundaries, and every optional context length,
  \<^verbatim>\<open>get_split_params\<close> selects for a split the fraction-based parameters exactly when its
  first boundary is below 1 and not 0, or its second boundary is below 1; then it returns
  \<^verbatim>\<open>start_fraction\<close> and \<^verbatim>\<open>end_fraction\<close> equal to the two boundaries and
  \<^verbatim>\<open>start_offset\<close> equal to the context length (0 when there is none) for valid and test
  and 0 for train. Otherwise it selects the index-based parameters, with \<^verbatim>\<open>start_index\<close>
  the first boundary minus that same offset and \<^verbatim>\<open>end_index\<close> the second boundary. In
  particular, for train \<^verbatim>\<open>[0, x]\<close>, valid \<^verbatim>\<open>[x, y]\<close>, test \<^verbatim>\<open>[y, 1]\<close> with \<open>x\<close> and
  \<open>y\<close> below 1 and \<open>y\<close> not 0 (as for 0.7 and 0.9) and context length 5, all three splits
  resolve to fraction-based parameters, with start offset 5 for valid and test and 0 for
  train.
\<close>

theorem get_split_params_three_way:
  "(map_of cfg ''train'' = Some (Bounds (t0 # t1 # tr))
    \<and> map_of cfg ''test'' = Some (Bounds (e0 # e1 # er))
    \<and> map_of cfg ''valid'' = Some (Bounds (v0 # v1 # vr))
    \<and> off = (case cl of None \<Rightarrow> 0 | Some c \<Rightarrow> c)
    \<longrightarrow>
    (\<exists>params fns. get_split_params py_sub cfg cl = Inr (Three_way params fns)
       \<and> map_of params ''train'' =
            Some (if (t0 < 1 \<and> t0 \<noteq> 0) \<or> t1 < 1
                  then [(''start_fraction'', t0), (''end_fraction'', t1), (''start_offset'', 0)]
                  else [(''start_index'', py_sub t0 0), (''end_index'', t1)])
       \<and> map_of fns ''train'' =
            Some (if (t0 < 1 \<and> t0 \<noteq> 0) \<or> t1 < 1 then Select_by_relative_fraction else Select_by_index)
       \<and> map_of params ''valid'' =
            Some (if (v0 < 1 \<and> v0 \<noteq> 0) \<or> v1 < 1
                  then [(''start_fraction'', v0), (''end_fraction'', v1), (''start_offset'', of_int off)]
                  else [(''start_index'', py_sub v0 off), (''end_index'', v1)])
       \<and> map_of fns ''valid'' =
            Some (if (v0 < 1 \<and> v0 \<noteq> 0) \<or> v1 < 1 then Select_by_relative_fraction else Select_by_index)
       \<and> map_of params ''test'' =
            Some (if (e0 < 1 \<and> e0 \<noteq> 0) \<or> e1 < 1
                  then [(''start_fraction'', e0), (''end_fraction'', e1), (''start_offset'', of_int off)]
                  else [(''start_index'', py_sub e0 off), (''end_index'', e1)])
       \<and> map_of fns ''test'' =
            Some (if (e0 < 1 \<and> e0 \<noteq> 0) \<or> e1 < 1 then Select_by_relative_fraction else Select_by_index)))
   \<and> (x < 1 \<and> y < 1 \<and> y \<noteq> 0 \<longrightarrow>
       get_split_params py_sub
          [(''train'', Bounds [0, x]), (''valid'', Bounds [x, y]), (''test'', Bounds [y, 1])] (Some 5)
        = Inr (Three_way
                 [(''train'', [(''start_fraction'', 0), (''end_fraction'', x), (''start_offset'', 0)]),
                  (''test'', [(''start_fraction'', y), (''end_fraction'', 1), (''start_offset'', 5)]),
                  (''valid'', [(''start_fraction'', x), (''end_fraction'', y), (''start_offset'', 5)])]
                 [(''train'', Select_by_relative_fraction), (''test'', Select_by_relative_fraction),
                  (''valid'', Select_by_relative_fraction)]))"
proof (intro conjI impI)
  assume a: "map_of cfg ''train'' = Some (Bounds (t0 # t1 # tr))
    \<and> map_of cfg ''test'' = Some (Bounds (e0 # e1 # er))
    \<and> map_of cfg ''valid'' = Some (Bounds (v0 # v1 # vr))
    \<and> off = (case cl of None \<Rightarrow> 0 | Some c \<Rightarrow> c)"
  from a have tr: "map_of cfg ''train'' = Some (Bounds (t0 # t1 # tr))" by blast
  from a have te: "map_of cfg ''test'' = Some (Bounds (e0 # e1 # er))" by blast
  from a have va: "map_of cfg ''valid'' = Some (Bounds (v0 # v1 # vr))" by blast
  from a have off: "off = (case cl of None \<Rightarrow> 0 | Some c \<Rightarrow> c)" by blast
  have co: "context_offset cl ''train'' = 0" "context_offset cl ''valid'' = off" "context_offset cl ''test'' = off"
    using off by (simp_all add: context_offset_cases)
  show "\<exists>params fns. get_split_params py_sub cfg cl = Inr (Three_way params fns)
       \<and> map_of params ''train'' =
            Some (if (t0 < 1 \<and> t0 \<noteq> 0) \<or> t1 < 1
                  then [(''start_fraction'', t0), (''end_fraction'', t1), (''start_offset'', 0)]
                  else [(''start_index'', py_sub t0 0), (''end_index'', t1)])
       \<and> map_of fns ''train'' =
            Some (if (t0 < 1 \<and> t0 \<noteq> 0) \<or> t1 < 1 then Select_by_relative_fraction else Select_by_index)
       \<and> map_of params ''valid'' =
            Some (if (v0 < 1 \<and> v0 \<noteq> 0) \<or> v1 < 1
                  then [(''start_fraction'', v0), (''end_fraction'', v1), (''start_offset'', of_int off)]
                  else [(''start_index'', py_sub v0 off), (''end_index'', v1)])
       \<and> map_of fns ''valid'' =
            Some (if (v0 < 1 \<and> v0 \<noteq> 0) \<or> v1 < 1 then Select_by_relative_fraction else Select_by_index)
       \<and> map_of params ''test'' =
            Some (if (e0 < 1 \<and> e0 \<noteq> 0) \<or> e1 < 1
                  then [(''start_fraction'', e0), (''end_fraction'', e1), (''start_offset'', of_int off)]
                  else [(''start_index'', py_sub e0 off), (''end_index'', e1)])
       \<and> map_of fns ''test'' =
            Some (if (e0 < 1 \<and> e0 \<noteq> 0) \<or> e1 < 1 then Select_by_relative_fraction else Select_by_index)"
    using va by (simp add: get_split_params_def split_entry_bounds[OF tr] split_entry_bounds[OF te]
          split_entry_bounds[OF va] co)
next
  assume b: "x < 1 \<and> y < 1 \<and> y \<noteq> 0"
  then show "get_split_params py_sub
          [(''train'', Bounds [0, x]), (''valid'', Bounds [x, y]), (''test'', Bounds [y, 1])] (Some 5)
        = Inr (Three_way
                 [(''train'', [(''start_fraction'', 0), (''end_fraction'', x), (''start_offset'', 0)]),
                  (''test'', [(''start_fraction'', y), (''end_fraction'', 1), (''start_offset'', 5)]),
                  (''valid'', [(''start_fraction'', x), (''end_fraction'', y), (''start_offset'', 5)])]
                 [(''train'', Select_by_relative_fraction), (''test'', Select_by_relative_fraction),
                  (''valid'', Select_by_relative_fraction)])"
    by (simp add: get_split_params_def split_entry_def config_item_def context_offset_def)
qed

theorem get_split_params_three_way_witness:
  "(map_of [(''train'', Bounds [0, 100]), (''valid'', Bounds [100, 150]), (''test'', Bounds [150, 200])] ''train'' = Some (Bounds (0 # 100 # []))
    \<and> map_of [(''train'', Bounds [0, 100]), (''valid'', Bounds [100, 150]), (''test'', Bounds [150, 200])] ''test'' = Some (Bounds (150 # 200 # []))
    \<and> map_of [(''train'', Bounds [0, 100]), (''valid'', Bounds [100, 150]), (''test'', Bounds [150, 200])] ''valid'' = Some (Bounds (100 # 150 # []))
    \<and> (5::int) = (case Some 5 of None \<Rightarrow> 0 | Some c \<Rightarrow> c))
   \<and> (\<exists>params fns. get_split_params exact_minus [(''train'', Bounds [0, 100]), (''valid'', Bounds [100, 150]), (''test'', Bounds [150, 200])] (Some 5) = Inr (Three_way params fns)
         \<and> map_of params ''valid'' = Some [(''start_index'', 95), (''end_index'', 150)]
         \<and> map_of fns ''valid'' = Some Select_by_index)
   \<and> ((7/10 :: rat) < 1 \<and> (9/10 :: rat) < 1 \<and> (9/10 :: rat) \<noteq> 0)
   \<and> get_split_params exact_minus
          [(''train'', Bounds [0, 7/10]), (''valid'', Bounds [7/10, 9/10]), (''test'', Bounds [9/10, 1])] (Some 5)
        = Inr (Three_way
                 [(''train'', [(''start_fraction'', 0), (''end_fraction'', 7/10), (''start_offset'', 0)]),
                  (''test'', [(''start_fraction'', 9/10), (''end_fraction'', 1), (''start_offset'', 5)]),
                  (''valid'', [(''start_fraction'', 7/10), (''end_fraction'', 9/10), (''start_offset'', 5)])]
                 [(''train'', Select_by_relative_fraction), (''test'', Select_by_relative_fraction),
                  (''valid'', Select_by_relative_fraction)])"
proof -
  have h1: "map_of [(''train'', Bounds [0, 100]), (''valid'', Bounds [100, 150]), (''test'', Bounds [150, 200])] ''train'' = Some (Bounds (0 # 100 # []))
    \<and> map_of [(''train'', Bounds [0, 100]), (''valid'', Bounds [100, 150]), (''test'', Bounds [150, 200])] ''test'' = Some (Bounds (150 # 200 # []))
    \<and> map_of [(''train'', Bounds [0, 100]), (''valid'', Bounds [100, 150]), (''test'', Bounds [150, 200])] ''valid'' = Some (Bounds (100 # 150 # []))
    \<and> (5::int) = (case Some 5 of None \<Rightarrow> 0 | Some c \<Rightarrow> c)"
    by simp
  have h2: "(7/10 :: rat) < 1 \<and> (9/10 :: rat) < 1 \<and> (9/10 :: rat) \<noteq> 0" by simp
  note main = get_split_params_three_way[where cfg="[(''train'', Bounds [0, 100]), (''valid'', Bounds [100, 150]), (''test'', Bounds [150, 200])]" and cl="Some 5" and off=5 and py_sub=exact_minus
      and ?t0.0=0 and ?t1.0=100 and tr="[]" and ?e0.0=150 and ?e1.0=200 and er="[]"
      and ?v0.0=100 and ?v1.0=150 and vr="[]" and x="7/10" and y="9/10"]
  have c1: "\<exists>params fns. get_split_params exact_minus [(''train'', Bounds [0, 100]), (''valid'', Bounds [100, 150]), (''test'', Bounds [150, 200])] (Some 5) = Inr (Three_way params fns)
         \<and> map_of params ''valid'' = Some [(''start_index'', 95), (''end_index'', 150)]
         \<and> map_of fns ''valid'' = Some Select_by_index"
    using main[THEN conjunct1] h1 by (simp add: exact_minus_def, blast)
  have c2: "get_split_params exact_minus
          [(''train'', Bounds [0, 7/10]), (''valid'', Bounds [7/10, 9/10]), (''test'', Bounds [9/10, 1])] (Some 5)
        = Inr (Three_way
                 [(''train'', [(''start_fraction'', 0), (''end_fraction'', 7/10), (''start_offset'', 0)]),
                  (''test'', [(''start_fraction'', 9/10), (''end_fraction'', 1), (''start_offset'', 5)]),
                  (''valid'', [(''start_fraction'', 7/10), (''end_fraction'', 9/10), (''start_offset'', 5)])]
                 [(''train'', Select_by_relative_fraction), (''test'', Select_by_relative_fraction),
                  (''valid'', Select_by_relative_fraction)])"
    using main[THEN conjunct2] h2 by blast
  show ?thesis using h1 h2 c1 c2 by blast
qed


end
